theory Spec2Isabelle
  imports Main "HOL-Library.Word" "HOL-Library.Sublist"
begin

section \<open>JavaScript strings and values\<close>

text \<open>
  A JavaScript string is a sequence of UTF-16 code units; \<open>length\<close>, \<open>slice\<close> and
  \<open>trim\<close> count and inspect code units. String literals of the source are written
  with \<open>lit\<close>; the three characters of the templates outside ASCII are given by
  their code unit.
\<close>

type_synonym code_unit = "16 word"
type_synonym jsstring = "code_unit list"

definition lit :: "string \<Rightarrow> jsstring" where
  "lit s = map (\<lambda>c. of_nat (of_char c)) s"

definition LF :: code_unit where "LF = 0x0A"
definition SP :: code_unit where "SP = 0x20"
definition DQUOTE :: code_unit where "DQUOTE = 0x22"
definition EN_DASH :: code_unit where "EN_DASH = 0x2013"
definition BULLET :: code_unit where "BULLET = 0x2022"

text \<open>
  \<open>String.prototype.trim\<close> removes WhiteSpace and LineTerminator code points from both
  ends: TAB, LF, VT, FF, CR, SPACE, NBSP, the other space separators of Unicode, LS, PS
  and the byte order mark.
\<close>

definition isWhiteSpace :: "code_unit \<Rightarrow> bool" where
  "isWhiteSpace c \<longleftrightarrow>
     c \<in> {0x09, 0x0A, 0x0B, 0x0C, 0x0D, 0x20, 0xA0, 0x1680, 0x2028, 0x2029,
          0x202F, 0x205F, 0x3000, 0xFEFF}
     \<or> (0x2000 \<le> c \<and> c \<le> 0x200A)"

definition trim :: "jsstring \<Rightarrow> jsstring" where
  "trim s = rev (dropWhile isWhiteSpace (rev (dropWhile isWhiteSpace s)))"

text \<open>
  \<open>xs.slice(start)\<close> and \<open>xs.slice(start, end)\<close> of arrays and strings: a negative
  index counts from the end, and both indices are clamped to the length.
\<close>

definition relative_index :: "int \<Rightarrow> nat \<Rightarrow> nat" where
  "relative_index i len = (if i < 0 then nat (max (int len + i) 0) else min (nat i) len)"

definition slice_from :: "int \<Rightarrow> 'a list \<Rightarrow> 'a list" where
  "slice_from start xs = drop (relative_index start (length xs)) xs"

definition slice :: "int \<Rightarrow> int \<Rightarrow> 'a list \<Rightarrow> 'a list" where
  "slice start end xs =
     (let k = relative_index start (length xs); final = relative_index end (length xs)
      in take (final - k) (drop k xs))"

text \<open>\<open>xs.join(sep)\<close> on an array of strings.\<close>

fun join :: "jsstring \<Rightarrow> jsstring list \<Rightarrow> jsstring" where
  "join sep [] = []"
| "join sep [x] = x"
| "join sep (x # y # ys) = x @ sep @ join sep (y # ys)"

text \<open>The decimal form of a non-negative integer, as a template literal prints it.\<close>

fun decimal :: "nat \<Rightarrow> jsstring" where
  "decimal n =
     (if n < 10 then [of_nat (48 + n)]
      else decimal (n div 10) @ [of_nat (48 + n mod 10)])"

declare decimal.simps [simp del]

text \<open>
  The values \<open>JSON.parse\<close> produces, and \<open>undefined\<close>, which reading an absent
  property yields. An object is the list of its own properties, each key once.
  Numbers play no part here and are kept as integers.
\<close>

datatype jsval =
    Undefined
  | Null
  | Bool bool
  | Num int
  | Str jsstring
  | Arr "jsval list"
  | Obj "(jsstring \<times> jsval) list"

text \<open>The truth value of \<open>v\<close> in a condition (\<open>v ? a : b\<close>, \<open>if (v)\<close>, \<open>v || d\<close>).\<close>

fun truthy :: "jsval \<Rightarrow> bool" where
  "truthy Undefined = False"
| "truthy Null = False"
| "truthy (Bool b) = b"
| "truthy (Num n) = (n \<noteq> 0)"
| "truthy (Str s) = (s \<noteq> [])"
| "truthy (Arr _) = True"
| "truthy (Obj _) = True"

text \<open>
  \<open>v.name\<close> for the nine field names the service reads. Reading a property of
  \<open>null\<close> or \<open>undefined\<close> throws a TypeError; on any other value the read gives
  the own property of an object, and \<open>undefined\<close> where there is none. None of the
  nine names is a property of a string, a number, a boolean or an array.
\<close>

datatype js_exception = TypeError | SyntaxError | TransportError | NoResponseError | SecurityError

definition nullish :: "jsval \<Rightarrow> bool" where
  "nullish v \<longleftrightarrow> v = Undefined \<or> v = Null"

fun own_prop :: "jsval \<Rightarrow> jsstring \<Rightarrow> jsval" where
  "own_prop (Obj kvs) k = (case map_of kvs k of Some v \<Rightarrow> v | None \<Rightarrow> Undefined)"
| "own_prop _ k = Undefined"

section \<open>Data model (types.ts)\<close>

record AnalysisResult =
  overview :: jsval
  emotional_patterns :: jsval
  environment_patterns :: jsval
  behavioral_loops :: jsval
  triggers :: jsval
  recurring_themes :: jsval
  core_pursuits_and_why :: jsval
  reflection_prompts :: jsval

record AnalysisState =
  isLoading :: bool
  error :: "jsstring option"
  result :: "AnalysisResult option"

record 'f UploadedFile =
  file' :: 'f
  previewUrl :: jsstring

record JournalEntry =
  entry_id :: jsstring
  timestamp :: jsstring
  entry_text :: jsstring
  journalPhotoCount :: nat
  spacePhotoCount :: nat

text \<open>
  The interfaces are compile-time only: what \<open>JSON.parse\<close> returns is assigned to them
  unchecked, so the fields of an \<open>AnalysisResult\<close> and a \<open>UserPatternProfile\<close> hold
  whatever value the response had there. A history is always a list of entries the
  application built itself.
\<close>

type_synonym UserPatternProfile = jsval

section \<open>FileUpload component\<close>

text \<open>
  \<open>handleFileSelect\<close>: \<open>e.target.files\<close> is \<open>None\<close> when the input has no file list;
  otherwise every picked file gets the preview URL the browser creates for it, and
  the combined list is cut to \<open>maxFiles\<close>. The result is the list handed to
  \<open>onFilesChange\<close>, which is the next \<open>files\<close> prop.
\<close>

definition maxFiles_default :: nat where
  "maxFiles_default = 5"

definition handleFileSelect ::
  "nat \<Rightarrow> ('f \<Rightarrow> jsstring) \<Rightarrow> 'f UploadedFile list \<Rightarrow> 'f list option \<Rightarrow> 'f UploadedFile list" where
  "handleFileSelect maxFiles createObjectURL files target_files =
     (case target_files of
        None \<Rightarrow> files
      | Some picked \<Rightarrow>
          (let newFiles = map (\<lambda>f. \<lparr>file' = f, previewUrl = createObjectURL f\<rparr>) picked;
               updatedFiles = slice 0 (int maxFiles) (files @ newFiles)
           in updatedFiles))"

definition removeFile :: "'f UploadedFile list \<Rightarrow> nat \<Rightarrow> 'f UploadedFile list" where
  "removeFile files indexToRemove =
     map snd (filter (\<lambda>(index, _). index \<noteq> indexToRemove) (enumerate 0 files))"

text \<open>The events of one photo category, and the file list after a run of them.\<close>

datatype 'f upload_event = Select "'f list option" | Remove nat

fun upload_step ::
  "('f \<Rightarrow> jsstring) \<Rightarrow> 'f UploadedFile list \<Rightarrow> 'f upload_event \<Rightarrow> 'f UploadedFile list" where
  "upload_step url files (Select picked) = handleFileSelect maxFiles_default url files picked"
| "upload_step url files (Remove i) = removeFile files i"

definition upload_run ::
  "('f \<Rightarrow> jsstring) \<Rightarrow> 'f upload_event list \<Rightarrow> 'f UploadedFile list" where
  "upload_run url evs = foldl (upload_step url) [] evs"

section \<open>The analysis service (services/geminiService.ts)\<close>

subsection \<open>What the service gets from outside\<close>

text \<open>
  A content part of the request is a text segment or an inline image
  (base64 data and MIME type).
\<close>

datatype part = TextPart jsstring | InlineData jsstring jsstring

text \<open>
  The reply of \<open>ai.models.generateContent\<close>, described by what the service does with
  it: the call rejects; \<open>response.text\<close> is undefined or empty; \<open>JSON.parse\<close> throws on
  the text; or \<open>JSON.parse\<close> returns a value.
\<close>

datatype reply = CallRejects | TextEmpty | TextNotJson | TextJson jsval

text \<open>
  The environment of one call. \<open>API_KEY\<close> is \<open>process.env.API_KEY\<close> (\<open>None\<close> when
  unset). \<open>fileToGenerativePart\<close> reads a file through a FileReader; \<open>None\<close> means the
  reader reports an error and the promise rejects with the reader's ProgressEvent.
  \<open>toLocaleDateString\<close> stands for \<open>new Date(t).toLocaleDateString()\<close> and
  \<open>JSON_stringify\<close> for \<open>JSON.stringify(v, null, 2)\<close>. The remaining fields serve
  the application: the identifier \<open>crypto.randomUUID()\<close> returns, the time
  \<open>new Date().toISOString()\<close> returns, whether reading the local storage throws, and
  for each key whether \<open>localStorage.setItem\<close> throws (with the message of the
  exception).
\<close>

datatype storage_key = patternMirrorHistoryKey | patternMirrorProfileKey

record 'f env =
  API_KEY :: "jsstring option"
  fileToGenerativePart :: "'f \<Rightarrow> part option"
  generateContent :: "part list \<Rightarrow> reply"
  toLocaleDateString :: "jsstring \<Rightarrow> jsstring"
  JSON_stringify :: "jsval \<Rightarrow> jsstring"
  randomUUID :: jsstring
  toISOString_now :: jsstring
  getItem_throws :: bool
  setItem_throws :: "storage_key \<Rightarrow> jsstring option"

text \<open>
  What a call can throw to its caller. The first three are \<open>Error\<close> objects carrying
  the messages below; a failed file read surfaces the ProgressEvent, which has no
  message; a storage exception carries the browser's message.
\<close>

datatype thrown =
    ApiKeyMissing
  | NoContent
  | AnalysisFailed
  | FileReadFailed
  | StorageFailed jsstring

fun message :: "thrown \<Rightarrow> jsstring option" where
  "message ApiKeyMissing = Some (lit ''API Key is missing. Please ensure process.env.API_KEY is set.'')"
| "message NoContent = Some (lit ''Please provide some text or images to analyze.'')"
| "message AnalysisFailed = Some (lit ''Failed to analyze patterns. Please try again.'')"
| "message FileReadFailed = None"
| "message (StorageFailed m) = Some m"

text \<open>What the caller can observe the service doing, in order.\<close>

datatype 'f effect = FileRead 'f | NetworkCall "part list"

subsection \<open>The prompt\<close>

text \<open>
  \<open>pastEntries.slice(-10).reverse()\<close>, shared by both versions of the service.
\<close>

definition recentFirst :: "JournalEntry list \<Rightarrow> JournalEntry list" where
  "recentFirst pastEntries = rev (slice_from (-10) pastEntries)"

text \<open>\<open>s.replace(/\n/g, ' ')\<close>: every line feed becomes a space.\<close>

definition replaceLF :: "jsstring \<Rightarrow> jsstring" where
  "replaceLF s = map (\<lambda>c. if c = LF then SP else c) s"

text \<open>
  Version with pattern hints: the callback of \<open>map\<close> in \<open>pastEntriesBlock\<close>, and the
  block itself.
\<close>

definition entryHint :: "(jsstring \<Rightarrow> jsstring) \<Rightarrow> nat \<Rightarrow> JournalEntry \<Rightarrow> jsstring" where
  "entryHint dateOf index e =
     (let date = dateOf (timestamp e);
          snippet = replaceLF (slice 0 400 (entry_text e))
      in lit ''ENTRY #'' @ decimal (index + 1) @ [SP, EN_DASH, SP] @ lit ''['' @ date @ lit '']:'' @ [LF]
         @ lit ''- Text snippet (what you wrote): '' @ [DQUOTE] @ snippet
         @ (if length (entry_text e) > 400 then lit ''...'' else []) @ [DQUOTE] @ [LF]
         @ lit ''- Pattern signals (you infer these from this entry + the previous pattern_profile):'' @ [LF]
         @ [SP, SP, BULLET] @ lit '' Identify 1'' @ [EN_DASH]
         @ lit ''3 recurring behaviors, emotions, avoidance patterns, coping styles, or triggers shown in this entry.'' @ [LF]
         @ [SP, SP, BULLET]
         @ lit '' These bullet points are high-level clues that help you detect repeating patterns across entries.'')"

definition pastEntriesBlock :: "(jsstring \<Rightarrow> jsstring) \<Rightarrow> JournalEntry list \<Rightarrow> jsstring" where
  "pastEntriesBlock dateOf pastEntries =
     (if length pastEntries > 0
      then join [LF, LF] (map (\<lambda>(index, e). entryHint dateOf index e) (enumerate 0 (recentFirst pastEntries)))
      else lit ''No past entries. This is the first one.'')"

text \<open>
  Version with summary lines: the callback of \<open>map\<close> in \<open>historySummaryText\<close>, the
  text itself, and what the contextOf block shows for it
  (\<open>historySummaryText || "No past entries. This is the first one."\<close>).
\<close>

definition summaryLine :: "JournalEntry \<Rightarrow> jsstring" where
  "summaryLine e =
     lit ''- ['' @ timestamp e @ lit ''] '' @ slice 0 500 (entry_text e)
     @ (if length (entry_text e) > 500 then lit ''...'' else [])"

definition historySummaryText :: "JournalEntry list \<Rightarrow> jsstring" where
  "historySummaryText pastEntries = join [LF] (map summaryLine (recentFirst pastEntries))"

definition historySummaryShown :: "JournalEntry list \<Rightarrow> jsstring" where
  "historySummaryShown pastEntries =
     (if historySummaryText pastEntries \<noteq> [] then historySummaryText pastEntries
      else lit ''No past entries. This is the first one.'')"

definition previousProfileText :: "(jsval \<Rightarrow> jsstring) \<Rightarrow> jsval \<Rightarrow> jsstring" where
  "previousProfileText stringify previousProfile =
     (if truthy previousProfile then stringify previousProfile
      else lit ''None yet. You are building the first version of this profile.'')"

text \<open>The first part of the request, in the two versions.\<close>

definition contextBlock :: "'f env \<Rightarrow> JournalEntry list \<Rightarrow> jsval \<Rightarrow> jsstring" where
  "contextBlock env pastEntries previousProfile =
     lit ''PAST PATTERN SIGNALS (most recent first):'' @ [LF]
     @ pastEntriesBlock (toLocaleDateString env) pastEntries @ [LF, LF]
     @ lit ''PREVIOUS PATTERN PROFILE (if any):'' @ [LF]
     @ previousProfileText (JSON_stringify env) previousProfile @ [LF, LF]
     @ lit ''CURRENT ENTRY TO ANALYZE:''"

definition contextBlockSummary :: "'f env \<Rightarrow> JournalEntry list \<Rightarrow> jsval \<Rightarrow> jsstring" where
  "contextBlockSummary env pastEntries previousProfile =
     lit ''PAST ENTRIES (summarized):'' @ [LF]
     @ historySummaryShown pastEntries @ [LF, LF]
     @ lit ''PREVIOUS PATTERN PROFILE (if any):'' @ [LF]
     @ previousProfileText (JSON_stringify env) previousProfile @ [LF, LF]
     @ lit ''CURRENT ENTRY TO ANALYZE:''"

definition journalTextPart :: "jsstring \<Rightarrow> part" where
  "journalTextPart journalText =
     (if trim journalText \<noteq> []
      then TextPart (lit ''JOURNAL ENTRIES/NOTES:'' @ [LF] @ journalText)
      else TextPart (lit ''(No text provided for this entry)''))"

text \<open>
  The loop \<open>for (const file of photos) parts.push(await fileToGenerativePart(file))\<close>:
  the reads made and the parts pushed, or \<open>None\<close> once a read rejects.
\<close>

fun pushPhotos :: "'f env \<Rightarrow> 'f list \<Rightarrow> 'f effect list \<times> part list option" where
  "pushPhotos env [] = ([], Some [])"
| "pushPhotos env (f # fs) =
     (case fileToGenerativePart env f of
        None \<Rightarrow> ([FileRead f], None)
      | Some p \<Rightarrow>
          (case pushPhotos env fs of
             (reads, pushed) \<Rightarrow> (FileRead f # reads, map_option ((#) p) pushed)))"

definition photoSection :: "'f env \<Rightarrow> jsstring \<Rightarrow> 'f list \<Rightarrow> 'f effect list \<times> part list option" where
  "photoSection env caption photos =
     (if length photos > 0
      then (case pushPhotos env photos of
              (reads, pushed) \<Rightarrow> (reads, map_option ((#) (TextPart caption)) pushed))
      else ([], Some []))"

subsection \<open>Reading the response\<close>

record analysis_output =
  analysis :: AnalysisResult
  pattern_profile :: UserPatternProfile

text \<open>
  The nine property reads that separate the report from the profile. They all read
  the same value, so the first one throws on \<open>null\<close> and none throws otherwise.
\<close>

definition splitResponse :: "jsval \<Rightarrow> js_exception + analysis_output" where
  "splitResponse jsonResponse =
     (if nullish jsonResponse then Inl TypeError
      else
        Inr \<lparr>analysis =
               \<lparr>overview = own_prop jsonResponse (lit ''overview''),
                emotional_patterns = own_prop jsonResponse (lit ''emotional_patterns''),
                environment_patterns = own_prop jsonResponse (lit ''environment_patterns''),
                behavioral_loops = own_prop jsonResponse (lit ''behavioral_loops''),
                triggers = own_prop jsonResponse (lit ''triggers''),
                recurring_themes = own_prop jsonResponse (lit ''recurring_themes''),
                core_pursuits_and_why = own_prop jsonResponse (lit ''core_pursuits_and_why''),
                reflection_prompts = own_prop jsonResponse (lit ''reflection_prompts'')\<rparr>,
             pattern_profile = own_prop jsonResponse (lit ''pattern_profile'')\<rparr>)"

text \<open>The body of the \<open>try\<close> block, and the \<open>catch\<close> that turns every exception into one error.\<close>

definition requestAnalysis :: "'f env \<Rightarrow> part list \<Rightarrow> js_exception + analysis_output" where
  "requestAnalysis env parts =
     (case generateContent env parts of
        CallRejects \<Rightarrow> Inl TransportError
      | TextEmpty \<Rightarrow> Inl NoResponseError
      | TextNotJson \<Rightarrow> Inl SyntaxError
      | TextJson jsonResponse \<Rightarrow> splitResponse jsonResponse)"

definition tryRequest :: "'f env \<Rightarrow> part list \<Rightarrow> thrown + analysis_output" where
  "tryRequest env parts =
     (case requestAnalysis env parts of
        Inl _ \<Rightarrow> Inl AnalysisFailed
      | Inr out \<Rightarrow> Inr out)"

subsection \<open>analyzePatterns\<close>

text \<open>
  The function in the order of its statements: the credential check, the parts, the
  content check, the request. The result pairs the observable effects with the value
  returned or the error thrown. The versions differ in the contextOf block only, which
  is the first argument here.
\<close>

definition analyzeWith ::
  "('f env \<Rightarrow> JournalEntry list \<Rightarrow> jsval \<Rightarrow> jsstring) \<Rightarrow> 'f env \<Rightarrow> jsstring \<Rightarrow> 'f list \<Rightarrow> 'f list
     \<Rightarrow> JournalEntry list \<Rightarrow> jsval \<Rightarrow> 'f effect list \<times> (thrown + analysis_output)" where
  "analyzeWith contextOf env journalText journalPhotos spacePhotos pastEntries previousProfile =
     (if API_KEY env = None \<or> API_KEY env = Some [] then ([], Inl ApiKeyMissing)
      else
        let parts0 = [TextPart (contextOf env pastEntries previousProfile), journalTextPart journalText]
        in case photoSection env (lit ''Here are photos of handwritten journal entries:'') journalPhotos of
             (reads1, None) \<Rightarrow> (reads1, Inl FileReadFailed)
           | (reads1, Some parts1) \<Rightarrow>
               (case photoSection env (lit ''Here are photos of my room/workspace/environment:'') spacePhotos of
                  (reads2, None) \<Rightarrow> (reads1 @ reads2, Inl FileReadFailed)
                | (reads2, Some parts2) \<Rightarrow>
                    if length (trim journalText) = 0 \<and> length journalPhotos = 0 \<and> length spacePhotos = 0
                    then (reads1 @ reads2, Inl NoContent)
                    else
                      let parts = parts0 @ parts1 @ parts2
                      in (reads1 @ reads2 @ [NetworkCall parts], tryRequest env parts)))"

definition analyzePatterns ::
  "'f env \<Rightarrow> jsstring \<Rightarrow> 'f list \<Rightarrow> 'f list \<Rightarrow> JournalEntry list \<Rightarrow> jsval
     \<Rightarrow> 'f effect list \<times> (thrown + analysis_output)" where
  "analyzePatterns = analyzeWith contextBlock"

definition analyzePatternsSummary ::
  "'f env \<Rightarrow> jsstring \<Rightarrow> 'f list \<Rightarrow> 'f list \<Rightarrow> JournalEntry list \<Rightarrow> jsval
     \<Rightarrow> 'f effect list \<times> (thrown + analysis_output)" where
  "analyzePatternsSummary = analyzeWith contextBlockSummary"

section \<open>The application (App.tsx)\<close>

text \<open>
  An item of the local storage, described by what \<open>load\<close> does with it: absent (or the
  empty string, which the \<open>if\<close> skips as well), a text \<open>JSON.parse\<close> rejects, or the
  serialisation of a value.
\<close>

datatype 'a item = NoItem | Unparsable | Holds 'a

record storage =
  patternMirrorHistory :: "JournalEntry list item"
  patternMirrorProfile :: "jsval item"

record 'f app =
  journalText :: jsstring
  journalPhotos :: "'f UploadedFile list"
  spacePhotos :: "'f UploadedFile list"
  history :: "JournalEntry list"
  profile :: UserPatternProfile
  analysisState :: AnalysisState
  localStorage :: storage

text \<open>The state the component starts with, over a given local storage.\<close>

definition initialApp :: "storage \<Rightarrow> 'f app" where
  "initialApp st =
     \<lparr>journalText = [], journalPhotos = [], spacePhotos = [], history = [], profile = Null,
      analysisState = \<lparr>isLoading = False, error = None, result = None\<rparr>,
      localStorage = st\<rparr>"

text \<open>
  The effect that loads on mount. The body of its \<open>try\<close> block gives the state reached
  and the exception that ended it, if any; the \<open>catch\<close> logs the exception and returns
  normally, so nothing reaches the caller.
\<close>

definition loadBody :: "'f env \<Rightarrow> 'f app \<Rightarrow> 'f app \<times> js_exception option" where
  "loadBody env s =
     (if getItem_throws env then (s, Some SecurityError)
      else
        let storedHistory = patternMirrorHistory (localStorage s);
            storedProfile = patternMirrorProfile (localStorage s)
        in case storedHistory of
             Unparsable \<Rightarrow> (s, Some SyntaxError)
           | _ \<Rightarrow>
               let s1 = (case storedHistory of Holds h \<Rightarrow> s\<lparr>history := h\<rparr> | _ \<Rightarrow> s)
               in (case storedProfile of
                     Unparsable \<Rightarrow> (s1, Some SyntaxError)
                   | Holds p \<Rightarrow> (s1\<lparr>profile := p\<rparr>, None)
                   | NoItem \<Rightarrow> (s1, None)))"

definition load :: "'f env \<Rightarrow> 'f app \<Rightarrow> js_exception + 'f app" where
  "load env s = (case loadBody env s of (s', caught) \<Rightarrow> Inr s')"

text \<open>
  \<open>err.message || "Something went wrong during analysis."\<close>, and the \<open>catch\<close> block of
  \<open>handleAnalyze\<close>.
\<close>

definition errorText :: "thrown \<Rightarrow> jsstring" where
  "errorText err =
     (case message err of
        Some m \<Rightarrow> if m \<noteq> [] then m else lit ''Something went wrong during analysis.''
      | None \<Rightarrow> lit ''Something went wrong during analysis.'')"

definition catchAnalyze :: "thrown \<Rightarrow> 'f app \<Rightarrow> 'f app" where
  "catchAnalyze err s =
     s\<lparr>analysisState := \<lparr>isLoading = False, error = Some (errorText err), result = None\<rparr>\<rparr>"

text \<open>
  What \<open>localStorage.setItem(key, JSON.stringify(v))\<close> leaves under the key.
  \<open>JSON.stringify(undefined)\<close> is \<open>undefined\<close>, which is stored as the text
  \<open>undefined\<close>, and that text does not parse.
\<close>

definition profileItem :: "jsval \<Rightarrow> jsval item" where
  "profileItem v = (if v = Undefined then Unparsable else Holds v)"

text \<open>
  The object literal \<open>newEntry\<close> of \<open>handleAnalyze\<close>: the entry built from the current
  inputs, the identifier just generated and the current time.
\<close>

definition newEntryOf :: "'f env \<Rightarrow> 'f app \<Rightarrow> JournalEntry" where
  "newEntryOf env s =
     \<lparr>entry_id = randomUUID env,
      timestamp = toISOString_now env,
      entry_text = trim (journalText s),
      journalPhotoCount = length (journalPhotos s),
      spacePhotoCount = length (spacePhotos s)\<rparr>"

text \<open>
  One analysis cycle: the state when \<open>handleAnalyze\<close> has run to its end. The state
  setters and the two storage writes happen in the order of the source, inside the one
  \<open>try\<close> block; \<open>service\<close> is the imported \<open>analyzePatterns\<close>.
\<close>

definition handleAnalyze ::
  "('f env \<Rightarrow> jsstring \<Rightarrow> 'f list \<Rightarrow> 'f list \<Rightarrow> JournalEntry list \<Rightarrow> jsval
      \<Rightarrow> 'f effect list \<times> (thrown + analysis_output))
     \<Rightarrow> 'f env \<Rightarrow> 'f app \<Rightarrow> 'f app" where
  "handleAnalyze service env s =
     (let s0 = s\<lparr>analysisState := \<lparr>isLoading = True, error = None, result = None\<rparr>\<rparr>;
          jFiles = map file' (journalPhotos s);
          sFiles = map file' (spacePhotos s)
      in case snd (service env (journalText s) jFiles sFiles (history s) (profile s)) of
           Inl err \<Rightarrow> catchAnalyze err s0
         | Inr out \<Rightarrow>
             let newEntry = newEntryOf env s;
                 updatedHistory = history s @ [newEntry];
                 s1 = s0\<lparr>history := updatedHistory,
                         profile := pattern_profile out,
                         analysisState := \<lparr>isLoading = False, error = None, result = Some (analysis out)\<rparr>\<rparr>
             in (case setItem_throws env patternMirrorHistoryKey of
                   Some m \<Rightarrow> catchAnalyze (StorageFailed m) s1
                 | None \<Rightarrow>
                     let s2 = s1\<lparr>localStorage :=
                                  (localStorage s1)\<lparr>patternMirrorHistory := Holds updatedHistory\<rparr>\<rparr>
                     in (case setItem_throws env patternMirrorProfileKey of
                           Some m \<Rightarrow> catchAnalyze (StorageFailed m) s2
                         | None \<Rightarrow>
                             s2\<lparr>localStorage :=
                                  (localStorage s2)\<lparr>patternMirrorProfile :=
                                     profileItem (pattern_profile out)\<rparr>\<rparr>)))"

text \<open>The states of the orchestrator, read off \<open>analysisState\<close>.\<close>

definition Succeeded :: "AnalysisState \<Rightarrow> bool" where
  "Succeeded a \<longleftrightarrow> \<not> isLoading a \<and> error a = None \<and> result a \<noteq> None"

definition Failed :: "AnalysisState \<Rightarrow> bool" where
  "Failed a \<longleftrightarrow> \<not> isLoading a \<and> error a \<noteq> None"

section \<open>Notions used in the statements\<close>

text \<open>
  Two histories agree up to \<open>n\<close> when they have the same length and entries at the
  same position have the same timestamp, the same first \<open>n\<close> code units of text, and
  are both longer than \<open>n\<close> or both not.
\<close>

definition agreeUpTo :: "nat \<Rightarrow> JournalEntry list \<Rightarrow> JournalEntry list \<Rightarrow> bool" where
  "agreeUpTo n =
     list_all2 (\<lambda>e e'. timestamp e = timestamp e'
                  \<and> take n (entry_text e) = take n (entry_text e')
                  \<and> (n < length (entry_text e) \<longleftrightarrow> n < length (entry_text e')))"

section \<open>Example data\<close>

text \<open>Entries and histories on which the properties below are evaluated.\<close>

definition exampleDateOf :: "jsstring \<Rightarrow> jsstring" where
  "exampleDateOf t = take 10 t"

definition exampleEntry :: "nat \<Rightarrow> JournalEntry" where
  "exampleEntry n =
     \<lparr>entry_id = lit ''id-'' @ decimal n, timestamp = lit ''2025-01-'' @ decimal n,
      entry_text = lit ''entry '' @ decimal n, journalPhotoCount = 0, spacePhotoCount = 0\<rparr>"

definition exampleHistory :: "JournalEntry list" where
  "exampleHistory =
     [exampleEntry 1, exampleEntry 2, exampleEntry 3, exampleEntry 4, exampleEntry 5,
      exampleEntry 6, exampleEntry 7, exampleEntry 8, exampleEntry 9, exampleEntry 10,
      exampleEntry 11, exampleEntry 12, exampleEntry 13, exampleEntry 14, exampleEntry 15]"

definition longEntry :: JournalEntry where
  "longEntry =
     \<lparr>entry_id = lit ''a'', timestamp = lit ''2025-01-01T00:00:00.000Z'',
      entry_text = replicate 300 0x61 @ [LF] @ replicate 300 0x62,
      journalPhotoCount = 0, spacePhotoCount = 0\<rparr>"

definition longerEntry :: JournalEntry where
  "longerEntry =
     \<lparr>entry_id = lit ''b'', timestamp = lit ''2025-01-01T00:00:00.000Z'',
      entry_text = replicate 300 0x61 @ [LF] @ replicate 300 0x62 @ lit ''the rest'',
      journalPhotoCount = 0, spacePhotoCount = 0\<rparr>"

definition linesEntry :: JournalEntry where
  "linesEntry =
     \<lparr>entry_id = lit ''c'', timestamp = lit ''2025-01-02T00:00:00.000Z'',
      entry_text = replicate 401 LF, journalPhotoCount = 0, spacePhotoCount = 0\<rparr>"

text \<open>An environment in which every step succeeds, and variations of it.\<close>

definition exampleReader :: "nat \<Rightarrow> part option" where
  "exampleReader f = Some (InlineData (decimal f) (lit ''image/png''))"

definition exampleProfile :: jsval where
  "exampleProfile =
     Obj [(lit ''summary'', Str (lit ''You settle yourself by putting things in order.'')),
          (lit ''tendencies'', Arr [Str (lit ''You tend to prepare before you begin.'')]),
          (lit ''typical_triggers'', Arr [Str (lit ''Starting work'')]),
          (lit ''typical_coping_styles'', Arr [Str (lit ''Tidying'')]),
          (lit ''last_updated'', Str (lit ''2025-02-01''))]"

definition exampleResponse :: jsval where
  "exampleResponse =
     Obj [(lit ''overview'', Str (lit ''You clean your desk before you start.'')),
          (lit ''emotional_patterns'', Arr []),
          (lit ''environment_patterns'', Arr []),
          (lit ''behavioral_loops'', Arr [Str (lit ''Cleaning before working'')]),
          (lit ''triggers'', Arr []),
          (lit ''recurring_themes'', Arr []),
          (lit ''core_pursuits_and_why'', Str []),
          (lit ''reflection_prompts'', Arr [Str (lit ''What does a clear desk give you?'')]),
          (lit ''pattern_profile'', exampleProfile)]"

definition exampleModel :: "part list \<Rightarrow> reply" where
  "exampleModel parts = TextJson exampleResponse"

definition partialModel :: "part list \<Rightarrow> reply" where
  "partialModel parts = TextJson (Obj [(lit ''overview'', Str (lit ''ok''))])"

definition exampleStringify :: "jsval \<Rightarrow> jsstring" where
  "exampleStringify v = lit ''{}''"

definition noQuotaError :: "storage_key \<Rightarrow> jsstring option" where
  "noQuotaError k = None"

definition quotaError :: "storage_key \<Rightarrow> jsstring option" where
  "quotaError k = Some (lit ''The quota has been exceeded.'')"

definition exampleEnv :: "nat env" where
  "exampleEnv =
     \<lparr>API_KEY = Some (lit ''key''),
      fileToGenerativePart = exampleReader,
      generateContent = exampleModel,
      toLocaleDateString = exampleDateOf,
      JSON_stringify = exampleStringify,
      randomUUID = lit ''0b9a6f0e-5c1d-4c1e-9a55-2f6b1c7d8e90'',
      toISOString_now = lit ''2025-02-01T10:00:00.000Z'',
      getItem_throws = False,
      setItem_throws = noQuotaError\<rparr>"

definition envNoKey :: "nat env" where
  "envNoKey = exampleEnv\<lparr>API_KEY := None\<rparr>"

definition envPartialReply :: "nat env" where
  "envPartialReply = exampleEnv\<lparr>generateContent := partialModel\<rparr>"

definition envQuota :: "nat env" where
  "envQuota = exampleEnv\<lparr>setItem_throws := quotaError\<rparr>"

text \<open>A first entry without photos, over an empty storage.\<close>

definition deskText :: jsstring where
  "deskText = lit ''I keep cleaning my desk before I can start work.''"

definition deskParts :: "part list" where
  "deskParts = [TextPart (contextBlock exampleEnv [] Null), journalTextPart deskText]"

definition emptyStorage :: storage where
  "emptyStorage = \<lparr>patternMirrorHistory = NoItem, patternMirrorProfile = NoItem\<rparr>"

definition deskApp :: "nat app" where
  "deskApp = (initialApp emptyStorage)\<lparr>journalText := deskText\<rparr>"

definition paddedApp :: "nat app" where
  "paddedApp = (initialApp emptyStorage)\<lparr>journalText := SP # deskText @ [LF]\<rparr>"

definition corruptProfileStorage :: storage where
  "corruptProfileStorage =
     \<lparr>patternMirrorHistory = Holds [exampleEntry 1], patternMirrorProfile = Unparsable\<rparr>"

definition exampleOutput :: analysis_output where
  "exampleOutput =
     \<lparr>analysis =
        \<lparr>overview = Str (lit ''You clean your desk before you start.''),
         emotional_patterns = Arr [],
         environment_patterns = Arr [],
         behavioral_loops = Arr [Str (lit ''Cleaning before working'')],
         triggers = Arr [],
         recurring_themes = Arr [],
         core_pursuits_and_why = Str [],
         reflection_prompts = Arr [Str (lit ''What does a clear desk give you?'')]\<rparr>,
      pattern_profile = exampleProfile\<rparr>"

fun profileQuotaError :: "storage_key \<Rightarrow> jsstring option" where
  "profileQuotaError patternMirrorHistoryKey = None"
| "profileQuotaError patternMirrorProfileKey = Some (lit ''The quota has been exceeded.'')"

definition envProfileQuota :: "nat env" where
  "envProfileQuota = exampleEnv\<lparr>setItem_throws := profileQuotaError\<rparr>"

definition deskEntry :: JournalEntry where
  "deskEntry =
     \<lparr>entry_id = lit ''0b9a6f0e-5c1d-4c1e-9a55-2f6b1c7d8e90'',
      timestamp = lit ''2025-02-01T10:00:00.000Z'',
      entry_text = deskText,
      journalPhotoCount = 0,
      spacePhotoCount = 0\<rparr>"

definition corruptHistoryStorage :: storage where
  "corruptHistoryStorage =
     \<lparr>patternMirrorHistory = Unparsable, patternMirrorProfile = Holds exampleProfile\<rparr>"

section \<open>Properties of the FileUpload component\<close>

lemma slice_zero: "slice 0 (int n) xs = take n xs"
  by (cases "n \<le> length xs") (simp_all add: slice_def relative_index_def min_def)

lemma slice_from_neg: "0 < n \<Longrightarrow> slice_from (- int n) xs = drop (length xs - n) xs"
proof -
  assume "0 < n"
  moreover have "nat (max (int (length xs) - int n) 0) = length xs - n" by simp
  ultimately show ?thesis by (simp add: slice_from_def relative_index_def)
qed

lemma removeFile_take_drop: "removeFile files i = take i files @ drop (Suc i) files"
proof -
  have "map snd (filter (\<lambda>(index, _). index \<noteq> k + i) (enumerate k files))
          = take i files @ drop (Suc i) files" for k
  proof (induction files arbitrary: k i)
    case Nil
    then show ?case by simp
  next
    case (Cons x xs)
    show ?case
    proof (cases i)
      case 0
      have "filter (\<lambda>(index, _). index \<noteq> k) (enumerate (Suc k) xs) = enumerate (Suc k) xs"
        by (rule filter_True) (auto simp: in_set_enumerate_eq)
      with 0 show ?thesis by simp
    next
      case (Suc j)
      with Cons.IH [of "Suc k" j] show ?thesis by simp
    qed
  qed
  from this [of 0] show ?thesis by (simp add: removeFile_def)
qed

lemma handleFileSelect_length:
  "length files \<le> m \<Longrightarrow> length (handleFileSelect m url files picked) \<le> m"
  by (cases picked) (simp_all add: handleFileSelect_def slice_zero)

lemma removeFile_length: "length (removeFile files i) \<le> length files"
  by (simp add: removeFile_take_drop)

lemma upload_step_length:
  "length files \<le> maxFiles_default \<Longrightarrow> length (upload_step url files ev) \<le> maxFiles_default"
proof (cases ev)
  case (Select picked)
  assume "length files \<le> maxFiles_default"
  with Select show ?thesis by (simp add: handleFileSelect_length)
next
  case (Remove i)
  assume "length files \<le> maxFiles_default"
  with Remove removeFile_length [of files i] show ?thesis by simp
qed

lemma upload_foldl_length:
  "length files \<le> maxFiles_default \<Longrightarrow>
   length (foldl (upload_step url) files evs) \<le> maxFiles_default"
  by (induction evs arbitrary: files) (simp_all add: upload_step_length)

text \<open>
  C10. In each photo category the selected-file list never holds more than 5 files,
  whatever files are picked and removed. Picking files appends them to the current
  list and keeps the first 5 of the combined list, so the files selected earlier stay
  and the excess of the new ones is dropped. Removing a file leaves the others in
  their order: the result is the list before the index followed by the list after it,
  a subsequence of the old list.
\<close>

theorem C10_file_list_bounded:
  "length (upload_run url evs) \<le> 5
   \<and> handleFileSelect maxFiles_default url files (Some picked)
       = take 5 (files @ map (\<lambda>f. \<lparr>file' = f, previewUrl = url f\<rparr>) picked)
   \<and> handleFileSelect maxFiles_default url files (Some picked)
       = take 5 files @ take (5 - length files) (map (\<lambda>f. \<lparr>file' = f, previewUrl = url f\<rparr>) picked)
   \<and> removeFile files i = take i files @ drop (Suc i) files
   \<and> subseq (removeFile files i) files"
proof -
  have a: "length (upload_run url evs) \<le> 5"
    using upload_foldl_length [of "[]" url evs]
    by (simp add: upload_run_def maxFiles_default_def)
  have b: "handleFileSelect maxFiles_default url files (Some picked)
       = take 5 (files @ map (\<lambda>f. \<lparr>file' = f, previewUrl = url f\<rparr>) picked)"
    using slice_zero [of 5 "files @ map (\<lambda>f. \<lparr>file' = f, previewUrl = url f\<rparr>) picked"]
    by (simp add: handleFileSelect_def maxFiles_default_def)
  have c: "subseq (take i files @ drop (Suc i) files) files"
  proof -
    have "subseq (take i files @ drop (Suc i) files) (take i files @ drop i files)"
    proof (rule list_emb_append_mono)
      have "suffix (drop 1 (drop i files)) (drop i files)" by (rule suffix_drop)
      then show "subseq (drop (Suc i) files) (drop i files)"
        by (simp add: suffix_imp_subseq)
    qed simp
    then show ?thesis by simp
  qed
  from a b c show ?thesis by (simp add: removeFile_take_drop)
qed

theorem C10_file_list_bounded_witness:
  "handleFileSelect maxFiles_default (\<lambda>n. decimal n)
     [\<lparr>file' = 1, previewUrl = decimal 1\<rparr>, \<lparr>file' = 2, previewUrl = decimal 2\<rparr>,
      \<lparr>file' = 3, previewUrl = decimal 3\<rparr>]
     (Some [4, 5, 6, 7::nat])
   = [\<lparr>file' = 1, previewUrl = decimal 1\<rparr>, \<lparr>file' = 2, previewUrl = decimal 2\<rparr>,
      \<lparr>file' = 3, previewUrl = decimal 3\<rparr>, \<lparr>file' = 4, previewUrl = decimal 4\<rparr>,
      \<lparr>file' = 5, previewUrl = decimal 5\<rparr>]"
  using C10_file_list_bounded [of "\<lambda>n. decimal n" "[]"
      "[\<lparr>file' = 1, previewUrl = decimal 1\<rparr>, \<lparr>file' = 2, previewUrl = decimal 2\<rparr>,
        \<lparr>file' = 3, previewUrl = decimal 3\<rparr>]" "[4, 5, 6, 7::nat]" 0]
  by simp

section \<open>Properties of the prompt\<close>

lemma recentFirst_eq: "recentFirst h = rev (drop (length h - 10) h)"
  using slice_from_neg [of 10 h] by (simp add: recentFirst_def)

lemma recentFirst_length: "length (recentFirst h) = min 10 (length h)"
  by (simp add: recentFirst_eq min_def)

lemma recentFirst_nth:
  assumes "i < min 10 (length h)"
  shows "recentFirst h ! i = h ! (length h - 1 - i)"
proof -
  let ?d = "drop (length h - 10) h"
  from assms have i: "i < length ?d" by simp arith
  have "rev ?d ! i = ?d ! (length ?d - Suc i)" using i by (rule rev_nth)
  also have "\<dots> = h ! (length h - 10 + (length ?d - Suc i))" by (rule nth_drop) simp
  also have "length h - 10 + (length ?d - Suc i) = length h - 1 - i" using assms by simp arith
  finally show ?thesis by (simp add: recentFirst_eq)
qed

lemma map_enumerate_index:
  "map (\<lambda>(i, x). f i x) (enumerate 0 xs) = map (\<lambda>i. f i (xs ! i)) [0..<length xs]"
  by (rule nth_equalityI) (simp_all add: nth_enumerate_eq)

lemma recentFirst_indexed:
  "map (\<lambda>(i, e). f i e) (enumerate 0 (recentFirst h))
     = map (\<lambda>i. f i (h ! (length h - 1 - i))) [0..<min 10 (length h)]"
proof -
  have "map (\<lambda>i. f i (recentFirst h ! i)) [0..<min 10 (length h)]
      = map (\<lambda>i. f i (h ! (length h - 1 - i))) [0..<min 10 (length h)]"
    by (rule map_cong) (simp_all add: recentFirst_nth)
  then show ?thesis by (simp add: map_enumerate_index recentFirst_length)
qed

lemma recentFirst_map:
  "map f (recentFirst h) = map (\<lambda>i. f (h ! (length h - 1 - i))) [0..<min 10 (length h)]"
proof -
  have "map f (recentFirst h) = map (\<lambda>i. f (recentFirst h ! i)) [0..<length (recentFirst h)]"
    by (rule nth_equalityI) simp_all
  also have "\<dots> = map (\<lambda>i. f (h ! (length h - 1 - i))) [0..<min 10 (length h)]"
    unfolding recentFirst_length by (rule map_cong) (simp_all add: recentFirst_nth)
  finally show ?thesis .
qed

lemma in_join_sublist: "x \<in> set xs \<Longrightarrow> sublist x (join sep xs)"
proof (induction sep xs rule: join.induct)
  case (1 sep)
  then show ?case by simp
next
  case (2 sep x')
  then show ?case by simp
next
  case (3 sep a b ys)
  show ?case
  proof (cases "x = a")
    case True
    then show ?thesis by simp
  next
    case False
    with 3 have "sublist x (join sep (b # ys))" by simp
    then obtain ps ss where "join sep (b # ys) = ps @ x @ ss"
      by (auto simp: sublist_def)
    then have "join sep (a # b # ys) = (a @ sep @ ps) @ x @ ss" by simp
    then show ?thesis unfolding sublist_def by blast
  qed
qed

lemma upt_0_10: "[0..<10] = [0, 1, 2, 3, 4, 5, 6, 7, 8, 9]"
  by code_simp

lemma sublist_third: "sublist x (a @ b @ x @ c)"
proof -
  have "a @ b @ x @ c = (a @ b) @ x @ c" by simp
  then show ?thesis unfolding sublist_def by blast
qed

lemma slice_400: "slice 0 400 xs = take 400 xs"
  using slice_zero [of 400 xs] by simp

lemma slice_500: "slice 0 500 xs = take 500 xs"
  using slice_zero [of 500 xs] by simp

lemma sublist_filter_length:
  "sublist xs ys \<Longrightarrow> length (filter P xs) \<le> length (filter P ys)"
  by (auto simp: sublist_def)

lemma entryHint_agree:
  assumes "timestamp e = timestamp e'" "take 400 (entry_text e) = take 400 (entry_text e')"
    "400 < length (entry_text e) \<longleftrightarrow> 400 < length (entry_text e')"
  shows "entryHint dateOf i e = entryHint dateOf i e'"
  using assms by (simp add: entryHint_def slice_400)

lemma summaryLine_agree:
  assumes "timestamp e = timestamp e'" "take 500 (entry_text e) = take 500 (entry_text e')"
    "500 < length (entry_text e) \<longleftrightarrow> 500 < length (entry_text e')"
  shows "summaryLine e = summaryLine e'"
  using assms by (simp add: summaryLine_def slice_500)

lemma recentFirst_all2:
  "list_all2 P h h' \<Longrightarrow> list_all2 P (recentFirst h) (recentFirst h')"
proof -
  assume a: "list_all2 P h h'"
  then have "length h = length h'" by (rule list_all2_lengthD)
  with a have "list_all2 P (drop (length h - 10) h) (drop (length h' - 10) h')"
    by (simp add: list_all2_dropI)
  then show ?thesis by (simp add: recentFirst_eq)
qed

lemma pastEntriesBlock_agree:
  assumes "agreeUpTo 400 h h'"
  shows "pastEntriesBlock dateOf h = pastEntriesBlock dateOf h'"
proof -
  let ?P = "\<lambda>e e'. timestamp e = timestamp e'
                  \<and> take 400 (entry_text e) = take 400 (entry_text e')
                  \<and> (400 < length (entry_text e) \<longleftrightarrow> 400 < length (entry_text e'))"
  from assms have all: "list_all2 ?P h h'" by (simp add: agreeUpTo_def)
  then have len: "length h = length h'" by (rule list_all2_lengthD)
  from all have r: "list_all2 ?P (recentFirst h) (recentFirst h')" by (rule recentFirst_all2)
  then have rl: "length (recentFirst h) = length (recentFirst h')" by (rule list_all2_lengthD)
  have "map (\<lambda>i. entryHint dateOf i (recentFirst h ! i)) [0..<length (recentFirst h)]
      = map (\<lambda>i. entryHint dateOf i (recentFirst h' ! i)) [0..<length (recentFirst h)]"
  proof (rule map_cong [OF refl])
    fix i assume "i \<in> set [0..<length (recentFirst h)]"
    then have "i < length (recentFirst h)" by simp
    with r have "?P (recentFirst h ! i) (recentFirst h' ! i)" by (rule list_all2_nthD)
    then show "entryHint dateOf i (recentFirst h ! i) = entryHint dateOf i (recentFirst h' ! i)"
      by (intro entryHint_agree) simp_all
  qed
  then have "map (\<lambda>(i, e). entryHint dateOf i e) (enumerate 0 (recentFirst h))
      = map (\<lambda>(i, e). entryHint dateOf i e) (enumerate 0 (recentFirst h'))"
    by (simp add: map_enumerate_index rl)
  with len show ?thesis by (simp add: pastEntriesBlock_def)
qed

lemma historySummaryText_agree:
  assumes "agreeUpTo 500 h h'"
  shows "historySummaryText h = historySummaryText h'"
proof -
  let ?P = "\<lambda>e e'. timestamp e = timestamp e'
                  \<and> take 500 (entry_text e) = take 500 (entry_text e')
                  \<and> (500 < length (entry_text e) \<longleftrightarrow> 500 < length (entry_text e'))"
  from assms have "list_all2 ?P h h'" by (simp add: agreeUpTo_def)
  then have r: "list_all2 ?P (recentFirst h) (recentFirst h')" by (rule recentFirst_all2)
  have "map summaryLine (recentFirst h) = map summaryLine (recentFirst h')"
  proof (rule nth_equalityI)
    show "length (map summaryLine (recentFirst h)) = length (map summaryLine (recentFirst h'))"
      using r by (simp add: list_all2_lengthD)
  next
    fix i assume "i < length (map summaryLine (recentFirst h))"
    then have i: "i < length (recentFirst h)" by simp
    with r have "?P (recentFirst h ! i) (recentFirst h' ! i)" by (rule list_all2_nthD)
    then have "summaryLine (recentFirst h ! i) = summaryLine (recentFirst h' ! i)"
      by (intro summaryLine_agree) simp_all
    moreover from r have "length (recentFirst h) = length (recentFirst h')" by (rule list_all2_lengthD)
    ultimately show "map summaryLine (recentFirst h) ! i = map summaryLine (recentFirst h') ! i"
      using i by simp
  qed
  then show ?thesis by (simp add: historySummaryText_def)
qed

lemma selected_rendered:
  assumes "e \<in> set (recentFirst h)"
  shows "(\<exists>i<10. sublist (entryHint dateOf i e) (pastEntriesBlock dateOf h))
         \<and> sublist (summaryLine e) (historySummaryText h)"
proof -
  from assms obtain i where i: "i < length (recentFirst h)" and e: "recentFirst h ! i = e"
    by (auto simp: in_set_conv_nth)
  from assms have ne: "h \<noteq> []" by (auto simp: recentFirst_eq)
  have "entryHint dateOf i e \<in> set (map (\<lambda>i. entryHint dateOf i (recentFirst h ! i)) [0..<length (recentFirst h)])"
    using i e by auto
  then have "sublist (entryHint dateOf i e) (pastEntriesBlock dateOf h)"
    using ne by (simp add: pastEntriesBlock_def map_enumerate_index in_join_sublist)
  moreover from i have "i < 10" by (simp add: recentFirst_length)
  moreover have "sublist (summaryLine e) (historySummaryText h)"
    using assms by (simp add: historySummaryText_def in_join_sublist)
  ultimately show ?thesis by blast
qed

lemma snippet_quoted:
  "sublist (DQUOTE # s @ m @ [DQUOTE]) (a @ [DQUOTE] @ s @ m @ [DQUOTE] @ c)"
proof -
  have "a @ [DQUOTE] @ s @ m @ [DQUOTE] @ c = a @ (DQUOTE # s @ m @ [DQUOTE]) @ c" by simp
  then show ?thesis unfolding sublist_def by blast
qed

lemma entryHint_snippet:
  "sublist (DQUOTE # replaceLF (take 400 (entry_text e))
              @ (if 400 < length (entry_text e) then lit ''...'' else []) @ [DQUOTE])
     (entryHint dateOf i e)"
proof -
  define a where "a = lit ''ENTRY #'' @ decimal (i + 1) @ [SP, EN_DASH, SP] @ lit ''['' @ dateOf (timestamp e)
      @ lit '']:'' @ [LF] @ lit ''- Text snippet (what you wrote): ''"
  define c where "c = [LF]
         @ lit ''- Pattern signals (you infer these from this entry + the previous pattern_profile):'' @ [LF]
         @ [SP, SP, BULLET] @ lit '' Identify 1'' @ [EN_DASH]
         @ lit ''3 recurring behaviors, emotions, avoidance patterns, coping styles, or triggers shown in this entry.'' @ [LF]
         @ [SP, SP, BULLET]
         @ lit '' These bullet points are high-level clues that help you detect repeating patterns across entries.''"
  have "entryHint dateOf i e = a @ [DQUOTE] @ replaceLF (take 400 (entry_text e))
      @ (if 400 < length (entry_text e) then lit ''...'' else []) @ [DQUOTE] @ c"
    by (simp add: entryHint_def slice_400 a_def c_def)
  then show ?thesis by (simp only: snippet_quoted)
qed

text \<open>
  C6, as amended. Every selected entry is rendered in the history block. In the
  version with pattern hints the snippet between the quotes is the first 400 code
  units of the text with every line feed replaced by a space, followed by \<open>...\<close> when
  the text is longer than 400 and by nothing otherwise. In the version with summary
  lines the rendering ends with the first 500 code units of the text, unchanged,
  followed by \<open>...\<close> when the text is longer than 500 and by nothing otherwise.
  Nothing beyond the bound is rendered: histories that agree up to the bound give the
  same block.
\<close>

theorem C6_truncation_marker:
  "(e \<in> set (recentFirst h) \<longrightarrow>
      (\<exists>i<10. sublist (entryHint dateOf i e) (pastEntriesBlock dateOf h))
      \<and> sublist (summaryLine e) (historySummaryText h))
   \<and> (400 < length (entry_text e) \<longrightarrow>
        sublist (DQUOTE # replaceLF (take 400 (entry_text e)) @ lit ''...'' @ [DQUOTE])
          (entryHint dateOf i e))
   \<and> (length (entry_text e) \<le> 400 \<longrightarrow>
        sublist (DQUOTE # replaceLF (entry_text e) @ [DQUOTE]) (entryHint dateOf i e))
   \<and> (500 < length (entry_text e) \<longrightarrow>
        summaryLine e = lit ''- ['' @ timestamp e @ lit ''] '' @ take 500 (entry_text e) @ lit ''...'')
   \<and> (length (entry_text e) \<le> 500 \<longrightarrow>
        summaryLine e = lit ''- ['' @ timestamp e @ lit ''] '' @ entry_text e)
   \<and> (agreeUpTo 400 h h' \<longrightarrow> pastEntriesBlock dateOf h = pastEntriesBlock dateOf h')
   \<and> (agreeUpTo 500 h h' \<longrightarrow> historySummaryText h = historySummaryText h')"
proof (intro conjI impI)
  assume "e \<in> set (recentFirst h)"
  then show "\<exists>i<10. sublist (entryHint dateOf i e) (pastEntriesBlock dateOf h)"
    and "sublist (summaryLine e) (historySummaryText h)"
    using selected_rendered [of e h dateOf] by simp_all
next
  assume "400 < length (entry_text e)"
  with entryHint_snippet [of e dateOf i]
  show "sublist (DQUOTE # replaceLF (take 400 (entry_text e)) @ lit ''...'' @ [DQUOTE])
          (entryHint dateOf i e)"
    by simp
next
  assume "length (entry_text e) \<le> 400"
  with entryHint_snippet [of e dateOf i]
  show "sublist (DQUOTE # replaceLF (entry_text e) @ [DQUOTE]) (entryHint dateOf i e)"
    by simp
next
  assume "500 < length (entry_text e)"
  then show "summaryLine e = lit ''- ['' @ timestamp e @ lit ''] '' @ take 500 (entry_text e) @ lit ''...''"
    by (simp add: summaryLine_def slice_500)
next
  assume "length (entry_text e) \<le> 500"
  then show "summaryLine e = lit ''- ['' @ timestamp e @ lit ''] '' @ entry_text e"
    by (simp add: summaryLine_def slice_500)
next
  assume "agreeUpTo 400 h h'"
  then show "pastEntriesBlock dateOf h = pastEntriesBlock dateOf h'"
    by (rule pastEntriesBlock_agree)
next
  assume "agreeUpTo 500 h h'"
  then show "historySummaryText h = historySummaryText h'"
    by (rule historySummaryText_agree)
qed

lemma recentFirst_single: "recentFirst [e] = [e]"
  by (simp add: recentFirst_eq)

theorem C6_truncation_marker_witness:
  "longEntry \<in> set (recentFirst [longEntry])
   \<and> sublist (summaryLine longEntry) (historySummaryText [longEntry])
   \<and> 400 < length (entry_text longEntry)
   \<and> sublist (DQUOTE # replaceLF (take 400 (entry_text longEntry)) @ lit ''...'' @ [DQUOTE])
        (entryHint exampleDateOf 0 longEntry)
   \<and> length (entry_text (exampleEntry 1)) \<le> 400
   \<and> sublist (DQUOTE # replaceLF (entry_text (exampleEntry 1)) @ [DQUOTE])
        (entryHint exampleDateOf 0 (exampleEntry 1))
   \<and> 500 < length (entry_text longEntry)
   \<and> summaryLine longEntry
        = lit ''- ['' @ timestamp longEntry @ lit ''] '' @ take 500 (entry_text longEntry) @ lit ''...''
   \<and> agreeUpTo 400 [longEntry] [longerEntry]
   \<and> pastEntriesBlock exampleDateOf [longEntry] = pastEntriesBlock exampleDateOf [longerEntry]
   \<and> agreeUpTo 500 [longEntry] [longerEntry]
   \<and> historySummaryText [longEntry] = historySummaryText [longerEntry]"
proof -
  have m: "longEntry \<in> set (recentFirst [longEntry])" by (simp add: recentFirst_single)
  have l4: "400 < length (entry_text longEntry)" by (simp add: longEntry_def)
  have l5: "500 < length (entry_text longEntry)" by (simp add: longEntry_def)
  have s4: "length (entry_text (exampleEntry 1)) \<le> 400"
    by (simp add: exampleEntry_def lit_def decimal.simps)
  have a4: "agreeUpTo 400 [longEntry] [longerEntry]"
    by (simp add: agreeUpTo_def longEntry_def longerEntry_def)
  have a5: "agreeUpTo 500 [longEntry] [longerEntry]"
    by (simp add: agreeUpTo_def longEntry_def longerEntry_def)
  note t1 = C6_truncation_marker [of longEntry "[longEntry]" exampleDateOf 0 "[longerEntry]"]
  note t2 = C6_truncation_marker [of "exampleEntry 1" "[]" exampleDateOf 0 "[]"]
  from t1 m have c1: "sublist (summaryLine longEntry) (historySummaryText [longEntry])" by blast
  from t1 l4 have c2: "sublist (DQUOTE # replaceLF (take 400 (entry_text longEntry)) @ lit ''...'' @ [DQUOTE])
        (entryHint exampleDateOf 0 longEntry)" by blast
  from t2 s4 have c3: "sublist (DQUOTE # replaceLF (entry_text (exampleEntry 1)) @ [DQUOTE])
        (entryHint exampleDateOf 0 (exampleEntry 1))" by blast
  from t1 l5 have c4: "summaryLine longEntry
        = lit ''- ['' @ timestamp longEntry @ lit ''] '' @ take 500 (entry_text longEntry) @ lit ''...''" by blast
  from t1 a4 have c5: "pastEntriesBlock exampleDateOf [longEntry] = pastEntriesBlock exampleDateOf [longerEntry]" by blast
  from t1 a5 have c6: "historySummaryText [longEntry] = historySummaryText [longerEntry]" by blast
  from m l4 l5 s4 a4 a5 c1 c2 c3 c4 c5 c6 show ?thesis by (intro conjI)
qed

text \<open>
  The claim C6 as stated asks for exactly the prefix of the text. For an entry of 401
  line feeds the block of the version with pattern hints does not contain the first
  400 code units of the text followed by the marker: it holds 400 spaces there.
\<close>

theorem C6_exact_prefix_counterexample:
  "400 < length (entry_text linesEntry)
   \<and> linesEntry \<in> set (recentFirst [linesEntry])
   \<and> \<not> sublist (take 400 (entry_text linesEntry) @ lit ''...'')
          (pastEntriesBlock exampleDateOf [linesEntry])"
proof -
  have "length (filter (\<lambda>c. c = LF) (pastEntriesBlock exampleDateOf [linesEntry])) = 4"
    by (simp add: pastEntriesBlock_def recentFirst_single entryHint_def slice_400 linesEntry_def
        exampleDateOf_def replaceLF_def lit_def LF_def SP_def DQUOTE_def EN_DASH_def BULLET_def decimal.simps)
  moreover have "length (filter (\<lambda>c. c = LF) (take 400 (entry_text linesEntry) @ lit ''...'')) = 400"
    by (simp add: linesEntry_def lit_def LF_def)
  ultimately have "\<not> sublist (take 400 (entry_text linesEntry) @ lit ''...'')
          (pastEntriesBlock exampleDateOf [linesEntry])"
    using sublist_filter_length [of "take 400 (entry_text linesEntry) @ lit ''...''"
        "pastEntriesBlock exampleDateOf [linesEntry]" "\<lambda>c. c = LF"]
    by auto
  then show ?thesis by (simp add: recentFirst_single linesEntry_def)
qed

section \<open>Properties of the analysis service\<close>

lemma pushPhotos_reads: "NetworkCall q \<notin> set (fst (pushPhotos env fs))"
  by (induction fs) (auto split: option.splits prod.splits)

lemma photoSection_reads: "NetworkCall q \<notin> set (fst (photoSection env caption fs))"
  using pushPhotos_reads [of q env fs]
  by (auto simp: photoSection_def split: prod.splits)

lemma photoSection_Nil: "photoSection env caption [] = ([], Some [])"
  by (simp add: photoSection_def)

lemma tryRequest_cases:
  "tryRequest env parts =
     (case generateContent env parts of
        TextJson v \<Rightarrow> (case splitResponse v of Inl _ \<Rightarrow> Inl AnalysisFailed | Inr out \<Rightarrow> Inr out)
      | _ \<Rightarrow> Inl AnalysisFailed)"
  by (simp add: tryRequest_def requestAnalysis_def split: reply.splits)

lemma tryRequest_not_other:
  "tryRequest env parts \<noteq> Inl NoContent" "tryRequest env parts \<noteq> Inl ApiKeyMissing"
  "tryRequest env parts \<noteq> Inl FileReadFailed"
  by (simp_all add: tryRequest_def split: sum.splits)

lemma analyzeWith_outcome:
  "(snd (analyzeWith contextOf env t jp sp h p) \<in> {Inl ApiKeyMissing, Inl FileReadFailed, Inl NoContent}
      \<and> (\<forall>q. NetworkCall q \<notin> set (fst (analyzeWith contextOf env t jp sp h p))))
   \<or> (\<exists>reads parts. fst (analyzeWith contextOf env t jp sp h p) = reads @ [NetworkCall parts]
         \<and> (\<forall>q. NetworkCall q \<notin> set reads)
         \<and> snd (analyzeWith contextOf env t jp sp h p) = tryRequest env parts)"
proof -
  obtain r1 o1 where p1: "photoSection env (lit ''Here are photos of handwritten journal entries:'') jp = (r1, o1)"
    by (cases "photoSection env (lit ''Here are photos of handwritten journal entries:'') jp")
  obtain r2 o2 where p2: "photoSection env (lit ''Here are photos of my room/workspace/environment:'') sp = (r2, o2)"
    by (cases "photoSection env (lit ''Here are photos of my room/workspace/environment:'') sp")
  have n1: "NetworkCall q \<notin> set r1" for q
    using photoSection_reads [of q env "lit ''Here are photos of handwritten journal entries:''" jp] p1 by simp
  have n2: "NetworkCall q \<notin> set r2" for q
    using photoSection_reads [of q env "lit ''Here are photos of my room/workspace/environment:''" sp] p2 by simp
  show ?thesis
  proof (cases "API_KEY env = None \<or> API_KEY env = Some []")
    case True
    then show ?thesis by (auto simp: analyzeWith_def)
  next
    case False
    show ?thesis
    proof (cases o1)
      case None
      with False p1 n1 show ?thesis by (simp add: analyzeWith_def)
    next
      case s1: (Some parts1)
      show ?thesis
      proof (cases o2)
        case None
        with False p1 p2 s1 n1 n2 show ?thesis by (simp add: analyzeWith_def)
      next
        case s2: (Some parts2)
        show ?thesis
        proof (cases "length (trim t) = 0 \<and> length jp = 0 \<and> length sp = 0")
          case True
          with False p1 p2 s1 s2 n1 n2 show ?thesis by (simp add: analyzeWith_def)
        next
          case nc: False
          let ?parts = "[TextPart (contextOf env h p), journalTextPart t] @ parts1 @ parts2"
          from False p1 p2 s1 s2 nc
          have "analyzeWith contextOf env t jp sp h p = ((r1 @ r2) @ [NetworkCall ?parts], tryRequest env ?parts)"
            by (simp add: analyzeWith_def Let_def)
          moreover have "\<forall>q. NetworkCall q \<notin> set (r1 @ r2)" using n1 n2 by simp
          ultimately show ?thesis by (metis fst_conv snd_conv)
        qed
      qed
    qed
  qed
qed

lemma deskText_trim: "trim deskText = deskText"
  by (simp add: deskText_def lit_def trim_def isWhiteSpace_def)

lemma deskText_nonempty: "deskText \<noteq> []"
  by (simp add: deskText_def lit_def)

lemma analyzeWith_text_only:
  assumes "API_KEY env \<noteq> None" "API_KEY env \<noteq> Some []" "trim t \<noteq> []"
  shows "analyzeWith ctx env t [] [] h p
     = ([NetworkCall [TextPart (ctx env h p), journalTextPart t]],
        tryRequest env [TextPart (ctx env h p), journalTextPart t])"
  using assms by (simp add: analyzeWith_def photoSection_Nil Let_def)

lemma exampleEnv_key: "API_KEY exampleEnv \<noteq> None" "API_KEY exampleEnv \<noteq> Some []"
  by (simp_all add: exampleEnv_def lit_def)

lemma analyze_desk:
  "analyzeWith ctx exampleEnv deskText [] [] h p
     = ([NetworkCall [TextPart (ctx exampleEnv h p), journalTextPart deskText]],
        tryRequest exampleEnv [TextPart (ctx exampleEnv h p), journalTextPart deskText])"
  by (rule analyzeWith_text_only) (simp_all add: exampleEnv_key deskText_trim deskText_nonempty)

text \<open>
  C1, as amended. The service does not check the response against the schema. Once
  the request has been sent, the call fails, with the one error \<open>AnalysisFailed\<close>,
  exactly when the model call rejects, the response text is empty, the text is not
  JSON, or it parses to \<open>null\<close>. Every other parsed value is accepted: each of the
  eight report fields and \<open>pattern_profile\<close> is read by name, and a field the
  response lacks is \<open>undefined\<close> in the result returned. A successful call is
  always of this kind.
\<close>

theorem C1_response_read_unchecked:
  "(snd (analyzeWith ctx env t jp sp h p) = Inr out \<longrightarrow>
      (\<exists>parts v. NetworkCall parts \<in> set (fst (analyzeWith ctx env t jp sp h p))
         \<and> generateContent env parts = TextJson v \<and> v \<noteq> Null \<and> v \<noteq> Undefined
         \<and> out =
             \<lparr>analysis =
                \<lparr>overview = own_prop v (lit ''overview''),
                 emotional_patterns = own_prop v (lit ''emotional_patterns''),
                 environment_patterns = own_prop v (lit ''environment_patterns''),
                 behavioral_loops = own_prop v (lit ''behavioral_loops''),
                 triggers = own_prop v (lit ''triggers''),
                 recurring_themes = own_prop v (lit ''recurring_themes''),
                 core_pursuits_and_why = own_prop v (lit ''core_pursuits_and_why''),
                 reflection_prompts = own_prop v (lit ''reflection_prompts'')\<rparr>,
              pattern_profile = own_prop v (lit ''pattern_profile'')\<rparr>))
   \<and> (NetworkCall parts \<in> set (fst (analyzeWith ctx env t jp sp h p)) \<longrightarrow>
        snd (analyzeWith ctx env t jp sp h p) =
          (case generateContent env parts of
             TextJson v \<Rightarrow>
               if v = Null \<or> v = Undefined then Inl AnalysisFailed
               else Inr
                 \<lparr>analysis =
                    \<lparr>overview = own_prop v (lit ''overview''),
                     emotional_patterns = own_prop v (lit ''emotional_patterns''),
                     environment_patterns = own_prop v (lit ''environment_patterns''),
                     behavioral_loops = own_prop v (lit ''behavioral_loops''),
                     triggers = own_prop v (lit ''triggers''),
                     recurring_themes = own_prop v (lit ''recurring_themes''),
                     core_pursuits_and_why = own_prop v (lit ''core_pursuits_and_why''),
                     reflection_prompts = own_prop v (lit ''reflection_prompts'')\<rparr>,
                  pattern_profile = own_prop v (lit ''pattern_profile'')\<rparr>
           | _ \<Rightarrow> Inl AnalysisFailed))"
proof -
  let ?a = "analyzeWith ctx env t jp sp h p"
  have sent: "snd ?a = tryRequest env q" if "NetworkCall q \<in> set (fst ?a)" for q
  proof -
    from analyzeWith_outcome [of ctx env t jp sp h p] that
    obtain reads parts' where f: "fst ?a = reads @ [NetworkCall parts']"
      and r: "\<forall>q. NetworkCall q \<notin> set reads" and s: "snd ?a = tryRequest env parts'"
      by blast
    from that f r have "q = parts'" by auto
    with s show ?thesis by simp
  qed
  have shape: "tryRequest env q =
          (case generateContent env q of
             TextJson v \<Rightarrow>
               if v = Null \<or> v = Undefined then Inl AnalysisFailed
               else Inr
                 \<lparr>analysis =
                    \<lparr>overview = own_prop v (lit ''overview''),
                     emotional_patterns = own_prop v (lit ''emotional_patterns''),
                     environment_patterns = own_prop v (lit ''environment_patterns''),
                     behavioral_loops = own_prop v (lit ''behavioral_loops''),
                     triggers = own_prop v (lit ''triggers''),
                     recurring_themes = own_prop v (lit ''recurring_themes''),
                     core_pursuits_and_why = own_prop v (lit ''core_pursuits_and_why''),
                     reflection_prompts = own_prop v (lit ''reflection_prompts'')\<rparr>,
                  pattern_profile = own_prop v (lit ''pattern_profile'')\<rparr>
           | _ \<Rightarrow> Inl AnalysisFailed)" for q
    by (auto simp: tryRequest_cases splitResponse_def nullish_def split: reply.splits)
  have second: "NetworkCall parts \<in> set (fst ?a) \<longrightarrow> snd ?a = tryRequest env parts"
    using sent by blast
  have first: "\<exists>parts v. NetworkCall parts \<in> set (fst ?a)
         \<and> generateContent env parts = TextJson v \<and> v \<noteq> Null \<and> v \<noteq> Undefined
         \<and> out =
             \<lparr>analysis =
                \<lparr>overview = own_prop v (lit ''overview''),
                 emotional_patterns = own_prop v (lit ''emotional_patterns''),
                 environment_patterns = own_prop v (lit ''environment_patterns''),
                 behavioral_loops = own_prop v (lit ''behavioral_loops''),
                 triggers = own_prop v (lit ''triggers''),
                 recurring_themes = own_prop v (lit ''recurring_themes''),
                 core_pursuits_and_why = own_prop v (lit ''core_pursuits_and_why''),
                 reflection_prompts = own_prop v (lit ''reflection_prompts'')\<rparr>,
              pattern_profile = own_prop v (lit ''pattern_profile'')\<rparr>"
    if ok: "snd ?a = Inr out"
  proof -
    from analyzeWith_outcome [of ctx env t jp sp h p] ok
    obtain reads q where f: "fst ?a = reads @ [NetworkCall q]" and s: "snd ?a = tryRequest env q"
      by auto
    from f have m: "NetworkCall q \<in> set (fst ?a)" by simp
    from s ok have "tryRequest env q = Inr out" by simp
    then obtain v where "generateContent env q = TextJson v" "v \<noteq> Null" "v \<noteq> Undefined"
      "out =
             \<lparr>analysis =
                \<lparr>overview = own_prop v (lit ''overview''),
                 emotional_patterns = own_prop v (lit ''emotional_patterns''),
                 environment_patterns = own_prop v (lit ''environment_patterns''),
                 behavioral_loops = own_prop v (lit ''behavioral_loops''),
                 triggers = own_prop v (lit ''triggers''),
                 recurring_themes = own_prop v (lit ''recurring_themes''),
                 core_pursuits_and_why = own_prop v (lit ''core_pursuits_and_why''),
                 reflection_prompts = own_prop v (lit ''reflection_prompts'')\<rparr>,
              pattern_profile = own_prop v (lit ''pattern_profile'')\<rparr>"
      unfolding shape by (auto split: reply.splits if_splits)
    with m show ?thesis by blast
  qed
  from first second show ?thesis unfolding shape by blast
qed

theorem C1_response_read_unchecked_witness:
  "NetworkCall deskParts \<in> set (fst (analyzeWith contextBlock exampleEnv deskText [] [] [] Null))
   \<and> snd (analyzeWith contextBlock exampleEnv deskText [] [] [] Null) =
       Inr \<lparr>analysis =
              \<lparr>overview = Str (lit ''You clean your desk before you start.''),
               emotional_patterns = Arr [],
               environment_patterns = Arr [],
               behavioral_loops = Arr [Str (lit ''Cleaning before working'')],
               triggers = Arr [],
               recurring_themes = Arr [],
               core_pursuits_and_why = Str [],
               reflection_prompts = Arr [Str (lit ''What does a clear desk give you?'')]\<rparr>,
            pattern_profile = exampleProfile\<rparr>"
proof -
  have m: "NetworkCall deskParts \<in> set (fst (analyzeWith contextBlock exampleEnv deskText [] [] [] Null))"
    by (simp add: analyze_desk deskParts_def)
  have g: "generateContent exampleEnv deskParts = TextJson exampleResponse"
    by (simp add: exampleEnv_def exampleModel_def)
  from C1_response_read_unchecked [of contextBlock exampleEnv deskText "[]" "[]" "[]" Null _ deskParts,
      THEN conjunct2, THEN mp, OF m]
  have "snd (analyzeWith contextBlock exampleEnv deskText [] [] [] Null) =
       Inr \<lparr>analysis =
              \<lparr>overview = Str (lit ''You clean your desk before you start.''),
               emotional_patterns = Arr [],
               environment_patterns = Arr [],
               behavioral_loops = Arr [Str (lit ''Cleaning before working'')],
               triggers = Arr [],
               recurring_themes = Arr [],
               core_pursuits_and_why = Str [],
               reflection_prompts = Arr [Str (lit ''What does a clear desk give you?'')]\<rparr>,
            pattern_profile = exampleProfile\<rparr>"
    by (simp add: g exampleResponse_def lit_def)
  with m show ?thesis by simp
qed

text \<open>
  The claim C1 as stated asks for a response that lacks required fields to be
  rejected. A response holding only \<open>overview\<close> is returned as a result with that
  field and the others \<open>undefined\<close>.
\<close>

theorem C1_partial_response_counterexample:
  "snd (analyzePatterns envPartialReply deskText [] [] [] Null) =
     Inr \<lparr>analysis =
            \<lparr>overview = Str (lit ''ok''),
             emotional_patterns = Undefined,
             environment_patterns = Undefined,
             behavioral_loops = Undefined,
             triggers = Undefined,
             recurring_themes = Undefined,
             core_pursuits_and_why = Undefined,
             reflection_prompts = Undefined\<rparr>,
          pattern_profile = Undefined\<rparr>"
proof -
  have "analyzeWith contextBlock envPartialReply deskText [] [] [] Null
     = ([NetworkCall [TextPart (contextBlock envPartialReply [] Null), journalTextPart deskText]],
        tryRequest envPartialReply [TextPart (contextBlock envPartialReply [] Null), journalTextPart deskText])"
    by (rule analyzeWith_text_only)
      (simp_all add: envPartialReply_def exampleEnv_key deskText_trim deskText_nonempty)
  moreover have "generateContent envPartialReply q = TextJson (Obj [(lit ''overview'', Str (lit ''ok''))])" for q
    by (simp add: envPartialReply_def partialModel_def)
  ultimately show ?thesis
    by (simp add: analyzePatterns_def tryRequest_cases splitResponse_def nullish_def lit_def)
qed

text \<open>
  C2, as amended. The first check of the call is the credential: without an API key
  the call fails with \<open>ApiKeyMissing\<close>, whatever the content, and nothing has been
  done before. With a key, a text that is empty or whitespace together with two empty
  photo batches makes the call fail with \<open>NoContent\<close> before any file is read
  or request sent; and the call fails with \<open>NoContent\<close> only in this case.
\<close>

theorem C2_credential_then_content:
  "((API_KEY env = None \<or> API_KEY env = Some []) \<longrightarrow>
       analyzeWith ctx env t jp sp h p = ([], Inl ApiKeyMissing))
   \<and> (API_KEY env \<noteq> None \<and> API_KEY env \<noteq> Some [] \<and> trim t = [] \<longrightarrow>
       analyzeWith ctx env t [] [] h p = ([], Inl NoContent))
   \<and> (snd (analyzeWith ctx env t jp sp h p) = Inl NoContent \<longrightarrow>
       API_KEY env \<noteq> None \<and> API_KEY env \<noteq> Some [] \<and> trim t = [] \<and> jp = [] \<and> sp = []
       \<and> fst (analyzeWith ctx env t jp sp h p) = [])"
proof (intro conjI impI)
  assume "API_KEY env = None \<or> API_KEY env = Some []"
  then show "analyzeWith ctx env t jp sp h p = ([], Inl ApiKeyMissing)"
    by (auto simp: analyzeWith_def)
next
  assume "API_KEY env \<noteq> None \<and> API_KEY env \<noteq> Some [] \<and> trim t = []"
  then show "analyzeWith ctx env t [] [] h p = ([], Inl NoContent)"
    by (simp add: analyzeWith_def photoSection_Nil)
next
  assume nc: "snd (analyzeWith ctx env t jp sp h p) = Inl NoContent"
  have key: "\<not> (API_KEY env = None \<or> API_KEY env = Some [])"
  proof
    assume "API_KEY env = None \<or> API_KEY env = Some []"
    then have "analyzeWith ctx env t jp sp h p = ([], Inl ApiKeyMissing)"
      by (auto simp: analyzeWith_def)
    with nc show False by simp
  qed
  obtain r1 o1 where p1: "photoSection env (lit ''Here are photos of handwritten journal entries:'') jp = (r1, o1)"
    by (cases "photoSection env (lit ''Here are photos of handwritten journal entries:'') jp")
  obtain r2 o2 where p2: "photoSection env (lit ''Here are photos of my room/workspace/environment:'') sp = (r2, o2)"
    by (cases "photoSection env (lit ''Here are photos of my room/workspace/environment:'') sp")
  from nc key p1 p2 have e: "trim t = [] \<and> jp = [] \<and> sp = []"
    using tryRequest_not_other(1)
    by (auto simp: analyzeWith_def Let_def split: option.splits if_splits)
  with key have "analyzeWith ctx env t jp sp h p = ([], Inl NoContent)"
    by (simp add: analyzeWith_def photoSection_Nil)
  with key e show "API_KEY env \<noteq> None" "API_KEY env \<noteq> Some []" "trim t = []" "jp = []" "sp = []"
    "fst (analyzeWith ctx env t jp sp h p) = []"
    by simp_all
qed

theorem C2_credential_then_content_witness:
  "analyzePatterns envNoKey (lit ''hello'') [] [] [] Null = ([], Inl ApiKeyMissing)
   \<and> trim (lit ''  '') = []
   \<and> analyzePatterns exampleEnv (lit ''  '') [] [] [] Null = ([], Inl NoContent)
   \<and> fst (analyzePatterns exampleEnv (lit ''  '') [] [] [] Null) = []"
proof -
  have k: "API_KEY envNoKey = None \<or> API_KEY envNoKey = Some []"
    by (simp add: envNoKey_def)
  have t: "trim (lit ''  '') = []" by (simp add: trim_def lit_def isWhiteSpace_def)
  have e: "API_KEY exampleEnv \<noteq> None \<and> API_KEY exampleEnv \<noteq> Some [] \<and> trim (lit ''  '') = []"
    using t by (simp add: exampleEnv_def lit_def)
  note a = C2_credential_then_content [of envNoKey contextBlock "lit ''hello''" "[]" "[]" "[]" Null,
      THEN conjunct1, THEN mp, OF k]
  note b = C2_credential_then_content [of exampleEnv contextBlock "lit ''  ''" "[]" "[]" "[]" Null,
      THEN conjunct2, THEN conjunct1, THEN mp, OF e]
  from b have s: "snd (analyzeWith contextBlock exampleEnv (lit ''  '') [] [] [] Null) = Inl NoContent"
    by simp
  note c = C2_credential_then_content [of exampleEnv contextBlock "lit ''  ''" "[]" "[]" "[]" Null,
      THEN conjunct2, THEN conjunct2, THEN mp, OF s]
  from a b c t show ?thesis by (simp add: analyzePatterns_def)
qed

text \<open>
  The claim C2 as stated asks for the content error on every call with no content.
  Without an API key such a call fails with the credential error instead.
\<close>

theorem C2_missing_credential_counterexample:
  "trim [] = []
   \<and> snd (analyzePatterns envNoKey [] [] [] [] Null) = Inl ApiKeyMissing
   \<and> snd (analyzePatterns envNoKey [] [] [] [] Null) \<noteq> Inl NoContent"
  by (simp add: trim_def analyzePatterns_def analyzeWith_def envNoKey_def exampleEnv_def)

section \<open>The history window in the request\<close>

lemma join_nonempty: "x \<noteq> [] \<Longrightarrow> join sep (x # xs) \<noteq> []"
  by (cases xs) simp_all

lemma summaryLine_nonempty: "summaryLine e \<noteq> []"
  by (simp add: summaryLine_def lit_def)

lemma recentFirst_nonempty: "h \<noteq> [] \<Longrightarrow> recentFirst h \<noteq> []"
proof -
  assume "h \<noteq> []"
  then have "0 < length (recentFirst h)" by (simp add: recentFirst_length)
  then show ?thesis by simp
qed

lemma historySummaryText_empty_iff: "historySummaryText h = [] \<longleftrightarrow> h = []"
proof
  assume e: "historySummaryText h = []"
  show "h = []"
  proof (rule ccontr)
    assume "h \<noteq> []"
    then obtain x xs where r: "recentFirst h = x # xs"
      using recentFirst_nonempty [of h] by (cases "recentFirst h") simp_all
    have "join [LF] (summaryLine x # map summaryLine xs) \<noteq> []"
      by (rule join_nonempty) (rule summaryLine_nonempty)
    with e r show False by (simp add: historySummaryText_def)
  qed
next
  assume "h = []"
  then show "historySummaryText h = []"
    by (simp add: historySummaryText_def recentFirst_eq)
qed

lemma historySummaryShown_eq:
  "historySummaryShown h =
     (if h = [] then lit ''No past entries. This is the first one.'' else historySummaryText h)"
  by (simp add: historySummaryShown_def historySummaryText_empty_iff)

lemma recentFirst_window: "recentFirst (drop (length h - 10) h) = recentFirst h"
  by (simp add: recentFirst_eq)

lemma window_empty_iff: "drop (length h - 10) h = [] \<longleftrightarrow> h = []"
  by (cases h) simp_all

lemma analyzeWith_first_part:
  assumes "NetworkCall parts \<in> set (fst (analyzeWith ctx env t jp sp h p))"
  shows "\<exists>rest. parts = TextPart (ctx env h p) # journalTextPart t # rest"
proof -
  obtain r1 o1 where p1: "photoSection env (lit ''Here are photos of handwritten journal entries:'') jp = (r1, o1)"
    by (cases "photoSection env (lit ''Here are photos of handwritten journal entries:'') jp")
  obtain r2 o2 where p2: "photoSection env (lit ''Here are photos of my room/workspace/environment:'') sp = (r2, o2)"
    by (cases "photoSection env (lit ''Here are photos of my room/workspace/environment:'') sp")
  have n1: "NetworkCall q \<notin> set r1" for q
    using photoSection_reads [of q env "lit ''Here are photos of handwritten journal entries:''" jp] p1 by simp
  have n2: "NetworkCall q \<notin> set r2" for q
    using photoSection_reads [of q env "lit ''Here are photos of my room/workspace/environment:''" sp] p2 by simp
  show ?thesis
  proof (cases "API_KEY env = None \<or> API_KEY env = Some []")
    case True
    then have "fst (analyzeWith ctx env t jp sp h p) = []" by (auto simp: analyzeWith_def)
    with assms show ?thesis by simp
  next
    case False
    show ?thesis
    proof (cases o1)
      case None
      with False p1 have "fst (analyzeWith ctx env t jp sp h p) = r1" by (auto simp: analyzeWith_def)
      with assms n1 show ?thesis by simp
    next
      case s1: (Some parts1)
      show ?thesis
      proof (cases o2)
        case None
        with False p1 p2 s1 have "fst (analyzeWith ctx env t jp sp h p) = r1 @ r2"
          by (auto simp: analyzeWith_def)
        with assms n1 n2 show ?thesis by simp
      next
        case s2: (Some parts2)
        show ?thesis
        proof (cases "length (trim t) = 0 \<and> length jp = 0 \<and> length sp = 0")
          case True
          with False p1 p2 s1 s2 have "fst (analyzeWith ctx env t jp sp h p) = r1 @ r2"
            by (auto simp: analyzeWith_def)
          with assms n1 n2 show ?thesis by simp
        next
          case nc: False
          let ?parts = "[TextPart (ctx env h p), journalTextPart t] @ parts1 @ parts2"
          from False p1 p2 s1 s2 nc
          have "fst (analyzeWith ctx env t jp sp h p) = (r1 @ r2) @ [NetworkCall ?parts]"
            by (auto simp: analyzeWith_def Let_def)
          with assms n1 n2 have "parts = ?parts" by auto
          then show ?thesis by simp
        qed
      qed
    qed
  qed
qed

lemma entryHint_explicit:
  "entryHint dateOf i e =
     lit ''ENTRY #'' @ decimal (i + 1) @ [SP, EN_DASH, SP] @ lit ''['' @ dateOf (timestamp e) @ lit '']:'' @ [LF]
     @ lit ''- Text snippet (what you wrote): '' @ [DQUOTE] @ replaceLF (take 400 (entry_text e))
     @ (if 400 < length (entry_text e) then lit ''...'' else []) @ [DQUOTE] @ [LF]
     @ lit ''- Pattern signals (you infer these from this entry + the previous pattern_profile):'' @ [LF]
     @ [SP, SP, BULLET] @ lit '' Identify 1'' @ [EN_DASH]
     @ lit ''3 recurring behaviors, emotions, avoidance patterns, coping styles, or triggers shown in this entry.'' @ [LF]
     @ [SP, SP, BULLET]
     @ lit '' These bullet points are high-level clues that help you detect repeating patterns across entries.''"
  by (simp add: entryHint_def slice_400)

lemma summaryLine_explicit:
  "summaryLine e =
     lit ''- ['' @ timestamp e @ lit ''] '' @ take 500 (entry_text e)
     @ (if 500 < length (entry_text e) then lit ''...'' else [])"
  by (simp add: summaryLine_def slice_500)

lemma pastEntriesBlock_indexed:
  "pastEntriesBlock dateOf h =
        (if h = [] then lit ''No past entries. This is the first one.''
         else join [LF, LF]
                (map (\<lambda>i. entryHint dateOf i (h ! (length h - 1 - i))) [0..<min 10 (length h)]))"
  by (simp add: pastEntriesBlock_def recentFirst_indexed)

lemma historySummaryText_indexed:
  "historySummaryText h =
        join [LF] (map (\<lambda>i. summaryLine (h ! (length h - 1 - i))) [0..<min 10 (length h)])"
  by (simp add: historySummaryText_def recentFirst_map)

lemma pastEntriesBlock_window:
  "pastEntriesBlock dateOf (drop (length h - 10) h) = pastEntriesBlock dateOf h"
proof (cases "h = []")
  case True
  then show ?thesis by simp
next
  case False
  then have "drop (length h - 10) h \<noteq> []" using window_empty_iff [of h] by blast
  with False show ?thesis
    unfolding pastEntriesBlock_def recentFirst_window by simp
qed

lemma historySummaryText_window:
  "historySummaryText (drop (length h - 10) h) = historySummaryText h"
  unfolding historySummaryText_def recentFirst_window by simp

text \<open>
  C5. The prompt builder selects at most the 10 most recent entries of the history and
  renders them most recent first. The entry at position \<open>i\<close> of the selection is the
  \<open>i\<close>-th entry from the end of the history, and a history of 15 entries gives exactly
  its last 10 in reverse order. In both versions of the service the history block, and
  with it the context block, is built from the renderings of exactly these entries in
  this order (for an empty history it is the fixed sentence); the rendering of an entry
  is the template of the source. Whenever a request is sent, its first part is this
  context block. Entries older than the last 10 have no influence: the block of a
  history is the block of its last 10 entries.
\<close>

theorem C5_history_window:
  "length (recentFirst h) = min 10 (length h)
   \<and> (\<forall>i < min 10 (length h). recentFirst h ! i = h ! (length h - 1 - i))
   \<and> (length h = 15 \<longrightarrow>
        recentFirst h = [h ! 14, h ! 13, h ! 12, h ! 11, h ! 10, h ! 9, h ! 8, h ! 7, h ! 6, h ! 5])
   \<and> pastEntriesBlock dateOf h =
        (if h = [] then lit ''No past entries. This is the first one.''
         else join [LF, LF]
                (map (\<lambda>i. entryHint dateOf i (h ! (length h - 1 - i))) [0..<min 10 (length h)]))
   \<and> historySummaryText h =
        join [LF] (map (\<lambda>i. summaryLine (h ! (length h - 1 - i))) [0..<min 10 (length h)])
   \<and> sublist (pastEntriesBlock (toLocaleDateString env) h) (contextBlock env h p)
   \<and> sublist (historySummaryShown h) (contextBlockSummary env h p)
   \<and> historySummaryShown h =
        (if h = [] then lit ''No past entries. This is the first one.''
         else join [LF]
                (map (\<lambda>i. summaryLine (h ! (length h - 1 - i))) [0..<min 10 (length h)]))
   \<and> contextBlock env h p =
        lit ''PAST PATTERN SIGNALS (most recent first):'' @ [LF]
        @ (if h = [] then lit ''No past entries. This is the first one.''
           else join [LF, LF]
                  (map (\<lambda>i. entryHint (toLocaleDateString env) i (h ! (length h - 1 - i)))
                     [0..<min 10 (length h)]))
        @ [LF, LF] @ lit ''PREVIOUS PATTERN PROFILE (if any):'' @ [LF]
        @ previousProfileText (JSON_stringify env) p @ [LF, LF]
        @ lit ''CURRENT ENTRY TO ANALYZE:''
   \<and> contextBlockSummary env h p =
        lit ''PAST ENTRIES (summarized):'' @ [LF]
        @ (if h = [] then lit ''No past entries. This is the first one.''
           else join [LF]
                  (map (\<lambda>i. summaryLine (h ! (length h - 1 - i))) [0..<min 10 (length h)]))
        @ [LF, LF] @ lit ''PREVIOUS PATTERN PROFILE (if any):'' @ [LF]
        @ previousProfileText (JSON_stringify env) p @ [LF, LF]
        @ lit ''CURRENT ENTRY TO ANALYZE:''
   \<and> (NetworkCall parts \<in> set (fst (analyzePatterns env t jp sp h p)) \<longrightarrow>
        (\<exists>rest. parts = TextPart (contextBlock env h p) # rest))
   \<and> (NetworkCall parts \<in> set (fst (analyzePatternsSummary env t jp sp h p)) \<longrightarrow>
        (\<exists>rest. parts = TextPart (contextBlockSummary env h p) # rest))
   \<and> pastEntriesBlock dateOf (drop (length h - 10) h) = pastEntriesBlock dateOf h
   \<and> historySummaryShown (drop (length h - 10) h) = historySummaryShown h
   \<and> entryHint dateOf i e =
        lit ''ENTRY #'' @ decimal (i + 1) @ [SP, EN_DASH, SP] @ lit ''['' @ dateOf (timestamp e) @ lit '']:'' @ [LF]
        @ lit ''- Text snippet (what you wrote): '' @ [DQUOTE] @ replaceLF (take 400 (entry_text e))
        @ (if 400 < length (entry_text e) then lit ''...'' else []) @ [DQUOTE] @ [LF]
        @ lit ''- Pattern signals (you infer these from this entry + the previous pattern_profile):'' @ [LF]
        @ [SP, SP, BULLET] @ lit '' Identify 1'' @ [EN_DASH]
        @ lit ''3 recurring behaviors, emotions, avoidance patterns, coping styles, or triggers shown in this entry.'' @ [LF]
        @ [SP, SP, BULLET]
        @ lit '' These bullet points are high-level clues that help you detect repeating patterns across entries.''
   \<and> summaryLine e =
        lit ''- ['' @ timestamp e @ lit ''] '' @ take 500 (entry_text e)
        @ (if 500 < length (entry_text e) then lit ''...'' else [])"
proof -
  have c1: "length (recentFirst h) = min 10 (length h)" by (rule recentFirst_length)
  have c2: "\<forall>i < min 10 (length h). recentFirst h ! i = h ! (length h - 1 - i)"
    by (simp add: recentFirst_nth)
  have c3: "length h = 15 \<longrightarrow>
        recentFirst h = [h ! 14, h ! 13, h ! 12, h ! 11, h ! 10, h ! 9, h ! 8, h ! 7, h ! 6, h ! 5]"
  proof
    assume "length h = 15"
    with recentFirst_map [of "\<lambda>e. e" h]
    show "recentFirst h = [h ! 14, h ! 13, h ! 12, h ! 11, h ! 10, h ! 9, h ! 8, h ! 7, h ! 6, h ! 5]"
      by (simp add: upt_0_10)
  qed
  note c4 = pastEntriesBlock_indexed [of dateOf h]
  note c5 = historySummaryText_indexed [of h]
  have c6: "sublist (pastEntriesBlock (toLocaleDateString env) h) (contextBlock env h p)"
    unfolding contextBlock_def by (rule sublist_third)
  have c7: "sublist (historySummaryShown h) (contextBlockSummary env h p)"
    unfolding contextBlockSummary_def by (rule sublist_third)
  have c8: "historySummaryShown h =
        (if h = [] then lit ''No past entries. This is the first one.''
         else join [LF]
                (map (\<lambda>i. summaryLine (h ! (length h - 1 - i))) [0..<min 10 (length h)]))"
    unfolding historySummaryShown_eq using c5 by simp
  have c9: "contextBlock env h p =
        lit ''PAST PATTERN SIGNALS (most recent first):'' @ [LF]
        @ (if h = [] then lit ''No past entries. This is the first one.''
           else join [LF, LF]
                  (map (\<lambda>i. entryHint (toLocaleDateString env) i (h ! (length h - 1 - i)))
                     [0..<min 10 (length h)]))
        @ [LF, LF] @ lit ''PREVIOUS PATTERN PROFILE (if any):'' @ [LF]
        @ previousProfileText (JSON_stringify env) p @ [LF, LF]
        @ lit ''CURRENT ENTRY TO ANALYZE:''"
    unfolding contextBlock_def pastEntriesBlock_indexed by (rule refl)
  have c10: "contextBlockSummary env h p =
        lit ''PAST ENTRIES (summarized):'' @ [LF]
        @ (if h = [] then lit ''No past entries. This is the first one.''
           else join [LF]
                  (map (\<lambda>i. summaryLine (h ! (length h - 1 - i))) [0..<min 10 (length h)]))
        @ [LF, LF] @ lit ''PREVIOUS PATTERN PROFILE (if any):'' @ [LF]
        @ previousProfileText (JSON_stringify env) p @ [LF, LF]
        @ lit ''CURRENT ENTRY TO ANALYZE:''"
    unfolding contextBlockSummary_def c8 by (rule refl)
  have c11: "NetworkCall parts \<in> set (fst (analyzePatterns env t jp sp h p)) \<longrightarrow>
        (\<exists>rest. parts = TextPart (contextBlock env h p) # rest)"
    using analyzeWith_first_part [of parts contextBlock env t jp sp h p]
    by (auto simp: analyzePatterns_def)
  have c12: "NetworkCall parts \<in> set (fst (analyzePatternsSummary env t jp sp h p)) \<longrightarrow>
        (\<exists>rest. parts = TextPart (contextBlockSummary env h p) # rest)"
    using analyzeWith_first_part [of parts contextBlockSummary env t jp sp h p]
    by (auto simp: analyzePatternsSummary_def)
  note c13 = pastEntriesBlock_window [of dateOf h]
  have c14: "historySummaryShown (drop (length h - 10) h) = historySummaryShown h"
    by (simp add: historySummaryShown_def historySummaryText_window)
  note c15 = entryHint_explicit [of dateOf i e]
  note c16 = summaryLine_explicit [of e]
  show ?thesis
    by (intro conjI) (rule c1 c2 c3 c4 c5 c6 c7 c8 c9 c10 c11 c12 c13 c14 c15 c16)+
qed

theorem C5_history_window_witness:
  "recentFirst exampleHistory =
     [exampleEntry 15, exampleEntry 14, exampleEntry 13, exampleEntry 12, exampleEntry 11,
      exampleEntry 10, exampleEntry 9, exampleEntry 8, exampleEntry 7, exampleEntry 6]
   \<and> recentFirst exampleHistory ! 0 = exampleEntry 15
   \<and> historySummaryShown exampleHistory =
       join [LF]
         [summaryLine (exampleEntry 15), summaryLine (exampleEntry 14), summaryLine (exampleEntry 13),
          summaryLine (exampleEntry 12), summaryLine (exampleEntry 11), summaryLine (exampleEntry 10),
          summaryLine (exampleEntry 9), summaryLine (exampleEntry 8), summaryLine (exampleEntry 7),
          summaryLine (exampleEntry 6)]
   \<and> NetworkCall [TextPart (contextBlockSummary exampleEnv exampleHistory Null), journalTextPart deskText]
       \<in> set (fst (analyzePatternsSummary exampleEnv deskText [] [] exampleHistory Null))
   \<and> (\<exists>rest. [TextPart (contextBlockSummary exampleEnv exampleHistory Null), journalTextPart deskText]
         = TextPart (contextBlockSummary exampleEnv exampleHistory Null) # rest)"
proof -
  have l: "length exampleHistory = 15" by (simp add: exampleHistory_def)
  have ne: "exampleHistory \<noteq> []" by (simp add: exampleHistory_def)
  have a: "recentFirst exampleHistory =
     [exampleEntry 15, exampleEntry 14, exampleEntry 13, exampleEntry 12, exampleEntry 11,
      exampleEntry 10, exampleEntry 9, exampleEntry 8, exampleEntry 7, exampleEntry 6]"
    using C5_history_window [of exampleHistory, THEN conjunct2, THEN conjunct2, THEN conjunct1]
    by (simp add: exampleHistory_def)
  have b: "historySummaryShown exampleHistory =
       join [LF]
         [summaryLine (exampleEntry 15), summaryLine (exampleEntry 14), summaryLine (exampleEntry 13),
          summaryLine (exampleEntry 12), summaryLine (exampleEntry 11), summaryLine (exampleEntry 10),
          summaryLine (exampleEntry 9), summaryLine (exampleEntry 8), summaryLine (exampleEntry 7),
          summaryLine (exampleEntry 6)]"
    using C5_history_window [of exampleHistory, THEN conjunct2, THEN conjunct2, THEN conjunct2,
        THEN conjunct2, THEN conjunct2, THEN conjunct2, THEN conjunct2, THEN conjunct1] ne l
    by (simp only: if_False min.absorb1 upt_0_10 list.map, simp add: exampleHistory_def)
  have m: "NetworkCall [TextPart (contextBlockSummary exampleEnv exampleHistory Null), journalTextPart deskText]
       \<in> set (fst (analyzePatternsSummary exampleEnv deskText [] [] exampleHistory Null))"
    by (simp add: analyzePatternsSummary_def analyze_desk)
  note c = C5_history_window [of exampleHistory _ exampleEnv Null
        "[TextPart (contextBlockSummary exampleEnv exampleHistory Null), journalTextPart deskText]"
        deskText "[]" "[]",
      THEN conjunct2, THEN conjunct2, THEN conjunct2, THEN conjunct2, THEN conjunct2, THEN conjunct2,
      THEN conjunct2, THEN conjunct2, THEN conjunct2, THEN conjunct2, THEN conjunct2, THEN conjunct1,
      THEN mp, OF m]
  from a b m c show ?thesis by simp
qed

section \<open>Properties of the application\<close>

lemma catchAnalyze_not_Succeeded: "\<not> Succeeded (analysisState (catchAnalyze err s))"
  by (simp add: catchAnalyze_def Succeeded_def)

lemma catchAnalyze_Failed: "Failed (analysisState (catchAnalyze err s))"
  by (simp add: catchAnalyze_def Failed_def)

lemma handleAnalyze_service_fails:
  assumes "snd (service env (journalText s) (map file' (journalPhotos s)) (map file' (spacePhotos s))
             (history s) (profile s)) = Inl err"
  shows "handleAnalyze service env s
           = s\<lparr>analysisState := \<lparr>isLoading = False, error = Some (errorText err), result = None\<rparr>\<rparr>"
  using assms by (simp add: handleAnalyze_def catchAnalyze_def)

lemma handleAnalyze_all_written:
  assumes "snd (service env (journalText s) (map file' (journalPhotos s)) (map file' (spacePhotos s))
             (history s) (profile s)) = Inr out"
    and "setItem_throws env patternMirrorHistoryKey = None"
    and "setItem_throws env patternMirrorProfileKey = None"
  shows "handleAnalyze service env s
           = s\<lparr>history := history s @ [newEntryOf env s],
                profile := pattern_profile out,
                analysisState := \<lparr>isLoading = False, error = None, result = Some (analysis out)\<rparr>,
                localStorage := \<lparr>patternMirrorHistory = Holds (history s @ [newEntryOf env s]),
                                 patternMirrorProfile = profileItem (pattern_profile out)\<rparr>\<rparr>"
  using assms by (simp add: handleAnalyze_def Let_def newEntryOf_def)

lemma handleAnalyze_history_write_fails:
  assumes "snd (service env (journalText s) (map file' (journalPhotos s)) (map file' (spacePhotos s))
             (history s) (profile s)) = Inr out"
    and "setItem_throws env patternMirrorHistoryKey = Some m"
  shows "handleAnalyze service env s
           = s\<lparr>history := history s @ [newEntryOf env s],
                profile := pattern_profile out,
                analysisState := \<lparr>isLoading = False, error = Some (errorText (StorageFailed m)),
                                  result = None\<rparr>\<rparr>"
  using assms by (simp add: handleAnalyze_def Let_def newEntryOf_def catchAnalyze_def)

lemma handleAnalyze_profile_write_fails:
  assumes "snd (service env (journalText s) (map file' (journalPhotos s)) (map file' (spacePhotos s))
             (history s) (profile s)) = Inr out"
    and "setItem_throws env patternMirrorHistoryKey = None"
    and "setItem_throws env patternMirrorProfileKey = Some m"
  shows "handleAnalyze service env s
           = s\<lparr>history := history s @ [newEntryOf env s],
                profile := pattern_profile out,
                analysisState := \<lparr>isLoading = False, error = Some (errorText (StorageFailed m)),
                                  result = None\<rparr>,
                localStorage := (localStorage s)\<lparr>patternMirrorHistory :=
                                   Holds (history s @ [newEntryOf env s])\<rparr>\<rparr>"
  using assms by (simp add: handleAnalyze_def Let_def newEntryOf_def catchAnalyze_def)

lemma handleAnalyze_service_ok:
  assumes "snd (service env (journalText s) (map file' (journalPhotos s)) (map file' (spacePhotos s))
             (history s) (profile s)) = Inr out"
  shows "history (handleAnalyze service env s) = history s @ [newEntryOf env s]
         \<and> profile (handleAnalyze service env s) = pattern_profile out"
proof (cases "setItem_throws env patternMirrorHistoryKey")
  case (Some m)
  from handleAnalyze_history_write_fails [of service env s out m, OF assms Some]
  show ?thesis by simp
next
  case None
  show ?thesis
  proof (cases "setItem_throws env patternMirrorProfileKey")
    case (Some m)
    from handleAnalyze_profile_write_fails [of service env s out m, OF assms None Some]
    show ?thesis by simp
  next
    case n2: None
    from handleAnalyze_all_written [of service env s out, OF assms None n2]
    show ?thesis by simp
  qed
qed

lemma handleAnalyze_Succeeded:
  assumes "Succeeded (analysisState (handleAnalyze service env s))"
  shows "\<exists>out. snd (service env (journalText s) (map file' (journalPhotos s)) (map file' (spacePhotos s))
             (history s) (profile s)) = Inr out
          \<and> setItem_throws env patternMirrorHistoryKey = None
          \<and> setItem_throws env patternMirrorProfileKey = None"
proof (cases "snd (service env (journalText s) (map file' (journalPhotos s)) (map file' (spacePhotos s))
             (history s) (profile s))")
  case (Inl err)
  with assms show ?thesis
    by (simp add: handleAnalyze_def catchAnalyze_not_Succeeded)
next
  case (Inr out)
  show ?thesis
  proof (cases "setItem_throws env patternMirrorHistoryKey")
    case None
    show ?thesis
    proof (cases "setItem_throws env patternMirrorProfileKey")
      case n2: None
      with Inr None show ?thesis by simp
    next
      case (Some m)
      with Inr None assms show ?thesis
        by (simp add: handleAnalyze_def Let_def catchAnalyze_not_Succeeded)
    qed
  next
    case (Some m)
    with Inr assms show ?thesis
      by (simp add: handleAnalyze_def Let_def catchAnalyze_not_Succeeded)
  qed
qed

text \<open>
  C3. Whenever the service call of a cycle succeeds, the history after the cycle is
  the old history with one entry appended at the end, and that entry is built from
  the current inputs alone: the identifier just generated, the current time, the
  trimmed journal text and the two photo counts. The profile after the cycle is the
  \<open>pattern_profile\<close> the service returned, whatever the old profile was. A cycle that
  ends in \<open>Succeeded\<close> is such a cycle; it shows the report returned with that
  profile and has written history and profile to the local storage. A successful
  service call whose two storage writes go through ends in \<open>Succeeded\<close>.
\<close>

theorem C3_success_appends_and_replaces:
  "(snd (service env (journalText s) (map file' (journalPhotos s))
          (map file' (spacePhotos s)) (history s) (profile s)) = Inr out \<longrightarrow>
      history (handleAnalyze service env s) =
        history s @
          [\<lparr>entry_id = randomUUID env,
            timestamp = toISOString_now env,
            entry_text = trim (journalText s),
            journalPhotoCount = length (journalPhotos s),
            spacePhotoCount = length (spacePhotos s)\<rparr>]
      \<and> length (history (handleAnalyze service env s)) = length (history s) + 1
      \<and> profile (handleAnalyze service env s) = pattern_profile out)
   \<and> (Succeeded (analysisState (handleAnalyze service env s)) \<longrightarrow>
        (\<exists>out. snd (service env (journalText s) (map file' (journalPhotos s))
                      (map file' (spacePhotos s)) (history s) (profile s)) = Inr out
           \<and> result (analysisState (handleAnalyze service env s)) = Some (analysis out)
           \<and> patternMirrorHistory (localStorage (handleAnalyze service env s)) =
               Holds (history (handleAnalyze service env s))
           \<and> patternMirrorProfile (localStorage (handleAnalyze service env s)) =
               profileItem (pattern_profile out)))
   \<and> (snd (service env (journalText s) (map file' (journalPhotos s))
              (map file' (spacePhotos s)) (history s) (profile s)) = Inr out
        \<and> setItem_throws env patternMirrorHistoryKey = None
        \<and> setItem_throws env patternMirrorProfileKey = None \<longrightarrow>
        Succeeded (analysisState (handleAnalyze service env s)))"
proof (intro conjI impI)
  assume o: "snd (service env (journalText s) (map file' (journalPhotos s))
          (map file' (spacePhotos s)) (history s) (profile s)) = Inr out"
  from handleAnalyze_service_ok [of service env s out, OF o]
  show "history (handleAnalyze service env s) =
        history s @
          [\<lparr>entry_id = randomUUID env,
            timestamp = toISOString_now env,
            entry_text = trim (journalText s),
            journalPhotoCount = length (journalPhotos s),
            spacePhotoCount = length (spacePhotos s)\<rparr>]"
    and "length (history (handleAnalyze service env s)) = length (history s) + 1"
    and "profile (handleAnalyze service env s) = pattern_profile out"
    by (simp_all add: newEntryOf_def)
next
  assume "Succeeded (analysisState (handleAnalyze service env s))"
  from handleAnalyze_Succeeded [of service env s, OF this] obtain out'
    where o: "snd (service env (journalText s) (map file' (journalPhotos s))
                    (map file' (spacePhotos s)) (history s) (profile s)) = Inr out'"
      and w: "setItem_throws env patternMirrorHistoryKey = None"
        "setItem_throws env patternMirrorProfileKey = None"
    by blast
  note e = handleAnalyze_all_written [of service env s out', OF o w]
  show "\<exists>out. snd (service env (journalText s) (map file' (journalPhotos s))
                      (map file' (spacePhotos s)) (history s) (profile s)) = Inr out
           \<and> result (analysisState (handleAnalyze service env s)) = Some (analysis out)
           \<and> patternMirrorHistory (localStorage (handleAnalyze service env s)) =
               Holds (history (handleAnalyze service env s))
           \<and> patternMirrorProfile (localStorage (handleAnalyze service env s)) =
               profileItem (pattern_profile out)"
    using o by (intro exI [of _ out']) (simp add: e)
next
  assume "snd (service env (journalText s) (map file' (journalPhotos s))
              (map file' (spacePhotos s)) (history s) (profile s)) = Inr out
        \<and> setItem_throws env patternMirrorHistoryKey = None
        \<and> setItem_throws env patternMirrorProfileKey = None"
  then show "Succeeded (analysisState (handleAnalyze service env s))"
    using handleAnalyze_all_written [of service env s out] by (simp add: Succeeded_def)
qed

lemma splitResponse_example: "splitResponse exampleResponse = Inr exampleOutput"
  by (simp add: splitResponse_def nullish_def exampleResponse_def exampleOutput_def lit_def)

lemma analyze_example_model:
  assumes "API_KEY env \<noteq> None" "API_KEY env \<noteq> Some []" "trim t \<noteq> []"
    "generateContent env = exampleModel"
  shows "snd (analyzeWith ctx env t [] [] h p) = Inr exampleOutput"
  using assms
  by (simp add: analyzeWith_text_only tryRequest_cases exampleModel_def splitResponse_example)

lemma padded_trim: "trim (SP # deskText @ [LF]) = deskText"
  by (simp add: deskText_def lit_def trim_def isWhiteSpace_def SP_def LF_def)

lemma desk_service_for:
  assumes "API_KEY env = API_KEY exampleEnv" "generateContent env = exampleModel"
  shows "snd (analyzePatterns env (journalText deskApp) (map file' (journalPhotos deskApp))
          (map file' (spacePhotos deskApp)) (history deskApp) (profile deskApp)) = Inr exampleOutput"
proof -
  have "snd (analyzeWith contextBlock env deskText [] [] [] Null) = Inr exampleOutput"
    by (rule analyze_example_model)
      (simp_all add: assms exampleEnv_key deskText_trim deskText_nonempty)
  then show ?thesis by (simp add: analyzePatterns_def deskApp_def initialApp_def)
qed

lemma desk_service:
  "snd (analyzePatterns exampleEnv (journalText deskApp) (map file' (journalPhotos deskApp))
          (map file' (spacePhotos deskApp)) (history deskApp) (profile deskApp)) = Inr exampleOutput"
  by (rule desk_service_for) (simp_all add: exampleEnv_def)

lemma padded_service:
  "snd (analyzePatterns exampleEnv (journalText paddedApp) (map file' (journalPhotos paddedApp))
          (map file' (spacePhotos paddedApp)) (history paddedApp) (profile paddedApp)) = Inr exampleOutput"
proof -
  have "snd (analyzeWith contextBlock exampleEnv (SP # deskText @ [LF]) [] [] [] Null) = Inr exampleOutput"
  proof (rule analyze_example_model)
    show "generateContent exampleEnv = exampleModel" by (simp add: exampleEnv_def)
  qed (simp_all add: exampleEnv_key padded_trim deskText_nonempty)
  then show ?thesis by (simp add: analyzePatterns_def paddedApp_def initialApp_def)
qed

lemma newEntryOf_desk: "newEntryOf exampleEnv deskApp = deskEntry"
  by (simp add: newEntryOf_def deskApp_def initialApp_def exampleEnv_def deskEntry_def deskText_trim)

lemma exampleEnv_writes:
  "setItem_throws exampleEnv patternMirrorHistoryKey = None"
  "setItem_throws exampleEnv patternMirrorProfileKey = None"
  by (simp_all add: exampleEnv_def noQuotaError_def)

theorem C3_success_appends_and_replaces_witness:
  "snd (analyzePatterns exampleEnv (journalText deskApp) (map file' (journalPhotos deskApp))
          (map file' (spacePhotos deskApp)) (history deskApp) (profile deskApp)) = Inr exampleOutput
   \<and> Succeeded (analysisState (handleAnalyze analyzePatterns exampleEnv deskApp))
   \<and> history (handleAnalyze analyzePatterns exampleEnv deskApp) = history deskApp @ [deskEntry]
   \<and> length (history (handleAnalyze analyzePatterns exampleEnv deskApp)) = 1
   \<and> profile (handleAnalyze analyzePatterns exampleEnv deskApp) = exampleProfile
   \<and> result (analysisState (handleAnalyze analyzePatterns exampleEnv deskApp))
       = Some (analysis exampleOutput)"
proof -
  note t = C3_success_appends_and_replaces [of analyzePatterns exampleEnv deskApp exampleOutput]
  from t desk_service exampleEnv_writes
  have s: "Succeeded (analysisState (handleAnalyze analyzePatterns exampleEnv deskApp))"
    by blast
  from t desk_service
  have h: "history (handleAnalyze analyzePatterns exampleEnv deskApp) =
             history deskApp @
               [\<lparr>entry_id = randomUUID exampleEnv,
                 timestamp = toISOString_now exampleEnv,
                 entry_text = trim (journalText deskApp),
                 journalPhotoCount = length (journalPhotos deskApp),
                 spacePhotoCount = length (spacePhotos deskApp)\<rparr>]"
    and p: "profile (handleAnalyze analyzePatterns exampleEnv deskApp) = pattern_profile exampleOutput"
    by blast+
  from t s obtain out' where
    o: "snd (analyzePatterns exampleEnv (journalText deskApp) (map file' (journalPhotos deskApp))
          (map file' (spacePhotos deskApp)) (history deskApp) (profile deskApp)) = Inr out'"
    and r: "result (analysisState (handleAnalyze analyzePatterns exampleEnv deskApp)) = Some (analysis out')"
    by blast
  from o desk_service have "out' = exampleOutput" by simp
  with r have r': "result (analysisState (handleAnalyze analyzePatterns exampleEnv deskApp))
       = Some (analysis exampleOutput)" by simp
  from p have p': "profile (handleAnalyze analyzePatterns exampleEnv deskApp) = exampleProfile"
    by (simp add: exampleOutput_def)
  from h have h': "history (handleAnalyze analyzePatterns exampleEnv deskApp) = history deskApp @ [deskEntry]"
    using newEntryOf_desk by (simp add: newEntryOf_def)
  from s h' p' r' desk_service show ?thesis by (simp add: deskApp_def initialApp_def)
qed

lemma trim_unchanged:
  assumes "s = [] \<or> (\<not> isWhiteSpace (hd s) \<and> \<not> isWhiteSpace (last s))"
  shows "trim s = s"
proof (cases "s = []")
  case True
  then show ?thesis by (simp add: trim_def)
next
  case False
  with assms have a: "\<not> isWhiteSpace (hd s)" and b: "\<not> isWhiteSpace (last s)" by simp_all
  from a have "dropWhile isWhiteSpace s = s" by (simp add: dropWhile_eq_self_iff)
  moreover from b have "dropWhile isWhiteSpace (rev s) = rev s"
    by (simp add: dropWhile_eq_self_iff hd_rev)
  ultimately show ?thesis by (simp add: trim_def)
qed

text \<open>
  C9, as amended. After a cycle whose service call succeeds the history is one entry
  longer and the text of its last entry is the submitted text trimmed of leading and
  trailing whitespace. For the first entry ever the history is that one text. When
  the submitted text is empty, or neither starts nor ends with whitespace, the
  recorded text is the submitted text, code unit for code unit.
\<close>

theorem C9_entry_text_trimmed:
  "snd (service env (journalText s) (map file' (journalPhotos s))
         (map file' (spacePhotos s)) (history s) (profile s)) = Inr out \<longrightarrow>
     length (history (handleAnalyze service env s)) = length (history s) + 1
     \<and> entry_text (last (history (handleAnalyze service env s))) = trim (journalText s)
     \<and> (history s = [] \<longrightarrow>
          map entry_text (history (handleAnalyze service env s)) = [trim (journalText s)])
     \<and> (journalText s = []
          \<or> (\<not> isWhiteSpace (hd (journalText s)) \<and> \<not> isWhiteSpace (last (journalText s))) \<longrightarrow>
          entry_text (last (history (handleAnalyze service env s))) = journalText s)"
proof
  assume o: "snd (service env (journalText s) (map file' (journalPhotos s))
         (map file' (spacePhotos s)) (history s) (profile s)) = Inr out"
  have h: "history (handleAnalyze service env s) = history s @ [newEntryOf env s]"
    using handleAnalyze_service_ok [of service env s out, OF o] by simp
  have t: "entry_text (newEntryOf env s) = trim (journalText s)" by (simp add: newEntryOf_def)
  show "length (history (handleAnalyze service env s)) = length (history s) + 1
     \<and> entry_text (last (history (handleAnalyze service env s))) = trim (journalText s)
     \<and> (history s = [] \<longrightarrow>
          map entry_text (history (handleAnalyze service env s)) = [trim (journalText s)])
     \<and> (journalText s = []
          \<or> (\<not> isWhiteSpace (hd (journalText s)) \<and> \<not> isWhiteSpace (last (journalText s))) \<longrightarrow>
          entry_text (last (history (handleAnalyze service env s))) = journalText s)"
    using trim_unchanged [of "journalText s"] by (auto simp: h t)
qed

theorem C9_entry_text_trimmed_witness:
  "Succeeded (analysisState (handleAnalyze analyzePatterns exampleEnv deskApp))
   \<and> history deskApp = []
   \<and> \<not> isWhiteSpace (hd (journalText deskApp)) \<and> \<not> isWhiteSpace (last (journalText deskApp))
   \<and> map entry_text (history (handleAnalyze analyzePatterns exampleEnv deskApp))
       = [lit ''I keep cleaning my desk before I can start work.'']
   \<and> entry_text (last (history (handleAnalyze analyzePatterns exampleEnv deskApp))) = journalText deskApp"
proof -
  have s: "Succeeded (analysisState (handleAnalyze analyzePatterns exampleEnv deskApp))"
    using handleAnalyze_all_written [of analyzePatterns exampleEnv deskApp exampleOutput,
        OF desk_service exampleEnv_writes]
    by (simp add: Succeeded_def)
  have e: "history deskApp = []" by (simp add: deskApp_def initialApp_def)
  have j: "journalText deskApp = deskText" by (simp add: deskApp_def initialApp_def)
  have w: "\<not> isWhiteSpace (hd (journalText deskApp)) \<and> \<not> isWhiteSpace (last (journalText deskApp))"
    by (simp add: j deskText_def lit_def isWhiteSpace_def)
  from C9_entry_text_trimmed [of analyzePatterns exampleEnv deskApp exampleOutput, THEN mp,
      OF desk_service] e w
  have "map entry_text (history (handleAnalyze analyzePatterns exampleEnv deskApp)) = [trim (journalText deskApp)]"
    and "entry_text (last (history (handleAnalyze analyzePatterns exampleEnv deskApp))) = journalText deskApp"
    by blast+
  with s e w show ?thesis by (simp add: j deskText_trim) (simp add: deskText_def)
qed

text \<open>
  The claim C9 as stated asks for the submitted text verbatim. A text submitted with
  a leading space and a trailing line feed is recorded without them.
\<close>

theorem C9_padded_text_counterexample:
  "Succeeded (analysisState (handleAnalyze analyzePatterns exampleEnv paddedApp))
   \<and> journalText paddedApp = SP # deskText @ [LF]
   \<and> map entry_text (history (handleAnalyze analyzePatterns exampleEnv paddedApp)) = [deskText]
   \<and> deskText \<noteq> journalText paddedApp"
proof -
  note e = handleAnalyze_all_written [of analyzePatterns exampleEnv paddedApp exampleOutput,
        OF padded_service exampleEnv_writes]
  have j: "journalText paddedApp = SP # deskText @ [LF]" by (simp add: paddedApp_def initialApp_def)
  have h: "history paddedApp = []" by (simp add: paddedApp_def initialApp_def)
  have "length deskText \<noteq> length (journalText paddedApp)" by (simp add: j)
  then have n: "deskText \<noteq> journalText paddedApp" by auto
  from e j h n show ?thesis
    by (simp add: Succeeded_def newEntryOf_def padded_trim)
qed

lemma handleAnalyze_failure_keeps_state:
  assumes "snd (service env (journalText s) (map file' (journalPhotos s)) (map file' (spacePhotos s))
             (history s) (profile s)) = Inl err"
  shows "Failed (analysisState (handleAnalyze service env s))
         \<and> history (handleAnalyze service env s) = history s
         \<and> profile (handleAnalyze service env s) = profile s
         \<and> localStorage (handleAnalyze service env s) = localStorage s"
  using handleAnalyze_service_fails [of service env s err, OF assms] by (simp add: Failed_def)

lemma errorText_quota:
  "errorText (StorageFailed (lit ''The quota has been exceeded.'')) = lit ''The quota has been exceeded.''"
  by (simp add: errorText_def lit_def)

text \<open>
  C4 on a cycle where the model answers and the second storage write throws. The
  cycle ends in \<open>Failed\<close>, yet the history has grown by the new entry, the profile
  has been replaced, and the stored history has been written while the stored profile
  has not. When the service call itself fails, history, profile and storage are
  unchanged (\<open>handleAnalyze_failure_keeps_state\<close>).
\<close>

theorem C4_failed_after_profile_write_error:
  "snd (analyzePatterns envProfileQuota (journalText deskApp) (map file' (journalPhotos deskApp))
          (map file' (spacePhotos deskApp)) (history deskApp) (profile deskApp)) = Inr exampleOutput
   \<and> Failed (analysisState (handleAnalyze analyzePatterns envProfileQuota deskApp))
   \<and> history deskApp = []
   \<and> length (history (handleAnalyze analyzePatterns envProfileQuota deskApp)) = 1
   \<and> profile deskApp = Null
   \<and> profile (handleAnalyze analyzePatterns envProfileQuota deskApp) = exampleProfile
   \<and> patternMirrorHistory (localStorage (handleAnalyze analyzePatterns envProfileQuota deskApp))
       = Holds (history (handleAnalyze analyzePatterns envProfileQuota deskApp))
   \<and> patternMirrorProfile (localStorage (handleAnalyze analyzePatterns envProfileQuota deskApp)) = NoItem"
proof -
  have sv: "snd (analyzePatterns envProfileQuota (journalText deskApp) (map file' (journalPhotos deskApp))
          (map file' (spacePhotos deskApp)) (history deskApp) (profile deskApp)) = Inr exampleOutput"
    by (rule desk_service_for) (simp_all add: envProfileQuota_def exampleEnv_def)
  have w1: "setItem_throws envProfileQuota patternMirrorHistoryKey = None"
    by (simp add: envProfileQuota_def)
  have w2: "setItem_throws envProfileQuota patternMirrorProfileKey = Some (lit ''The quota has been exceeded.'')"
    by (simp add: envProfileQuota_def)
  note e = handleAnalyze_profile_write_fails [of analyzePatterns envProfileQuota deskApp exampleOutput,
      OF sv w1 w2]
  have i: "history deskApp = []" "profile deskApp = Null" "localStorage deskApp = emptyStorage"
    by (simp_all add: deskApp_def initialApp_def)
  from sv i show ?thesis
    by (simp add: e Failed_def exampleOutput_def emptyStorage_def)
qed

text \<open>
  C8 on a cycle where the model answers and the first storage write throws. The
  service call succeeded, but the cycle ends in \<open>Failed\<close>: the message of the
  storage exception is shown and the result is discarded.
\<close>

theorem C8_result_lost_on_write_error:
  "snd (analyzePatterns envQuota (journalText deskApp) (map file' (journalPhotos deskApp))
          (map file' (spacePhotos deskApp)) (history deskApp) (profile deskApp)) = Inr exampleOutput
   \<and> analysisState (handleAnalyze analyzePatterns envQuota deskApp)
       = \<lparr>isLoading = False, error = Some (lit ''The quota has been exceeded.''), result = None\<rparr>
   \<and> \<not> Succeeded (analysisState (handleAnalyze analyzePatterns envQuota deskApp))
   \<and> Failed (analysisState (handleAnalyze analyzePatterns envQuota deskApp))"
proof -
  have sv: "snd (analyzePatterns envQuota (journalText deskApp) (map file' (journalPhotos deskApp))
          (map file' (spacePhotos deskApp)) (history deskApp) (profile deskApp)) = Inr exampleOutput"
    by (rule desk_service_for) (simp_all add: envQuota_def exampleEnv_def)
  have w1: "setItem_throws envQuota patternMirrorHistoryKey = Some (lit ''The quota has been exceeded.'')"
    by (simp add: envQuota_def quotaError_def)
  note e = handleAnalyze_history_write_fails [of analyzePatterns envQuota deskApp exampleOutput,
      OF sv w1]
  from sv show ?thesis
    by (simp add: e errorText_quota Failed_def Succeeded_def)
qed

text \<open>
  C7, as amended. Loading never raises. When reading the storage throws or the stored
  history does not parse, nothing is loaded: at start-up the history stays empty and
  the profile absent. When the stored history is absent or parses and the stored
  profile does not parse, the history that was read is kept and only the profile stays
  as it was. When both parse, both are loaded.
\<close>

theorem C7_load_never_raises:
  fixes env :: "'f env"
  shows "\<not> isl (load env s)
   \<and> (getItem_throws env \<or> patternMirrorHistory (localStorage s) = Unparsable \<longrightarrow>
        load env s = Inr s)
   \<and> (getItem_throws env \<or> patternMirrorHistory st = Unparsable \<longrightarrow>
        load env (initialApp st) = Inr (initialApp st)
        \<and> history (initialApp st :: 'f app) = [] \<and> profile (initialApp st :: 'f app) = Null)
   \<and> (\<not> getItem_throws env \<and> patternMirrorHistory (localStorage s) = Holds h
        \<and> patternMirrorProfile (localStorage s) = Unparsable \<longrightarrow>
        load env s = Inr (s\<lparr>history := h\<rparr>))
   \<and> (\<not> getItem_throws env \<and> patternMirrorHistory (localStorage s) = NoItem
        \<and> patternMirrorProfile (localStorage s) = Unparsable \<longrightarrow>
        load env s = Inr s)
   \<and> (\<not> getItem_throws env \<and> patternMirrorHistory (localStorage s) = Holds h
        \<and> patternMirrorProfile (localStorage s) = Holds p \<longrightarrow>
        load env s = Inr (s\<lparr>history := h, profile := p\<rparr>))"
proof -
  have a: "\<not> isl (load env s)" by (simp add: load_def split: prod.splits)
  have b: "load env s = Inr s"
    if "getItem_throws env \<or> patternMirrorHistory (localStorage s) = Unparsable" for s :: "'f app"
    using that by (auto simp: load_def loadBody_def Let_def)
  have c: "load env (initialApp st) = Inr (initialApp st)
        \<and> history (initialApp st :: 'f app) = [] \<and> profile (initialApp st :: 'f app) = Null"
    if "getItem_throws env \<or> patternMirrorHistory st = Unparsable"
  proof -
    from that have "getItem_throws env \<or> patternMirrorHistory (localStorage (initialApp st :: 'f app)) = Unparsable"
      by (simp add: initialApp_def)
    then have "load env (initialApp st) = Inr (initialApp st)" by (rule b)
    then show ?thesis by (simp add: initialApp_def)
  qed
  have d: "load env s = Inr (s\<lparr>history := h\<rparr>)"
    if "\<not> getItem_throws env \<and> patternMirrorHistory (localStorage s) = Holds h
        \<and> patternMirrorProfile (localStorage s) = Unparsable"
    using that by (simp add: load_def loadBody_def Let_def)
  have e: "load env s = Inr s"
    if "\<not> getItem_throws env \<and> patternMirrorHistory (localStorage s) = NoItem
        \<and> patternMirrorProfile (localStorage s) = Unparsable"
    using that by (simp add: load_def loadBody_def Let_def)
  have f: "load env s = Inr (s\<lparr>history := h, profile := p\<rparr>)"
    if "\<not> getItem_throws env \<and> patternMirrorHistory (localStorage s) = Holds h
        \<and> patternMirrorProfile (localStorage s) = Holds p"
    using that by (simp add: load_def loadBody_def Let_def)
  from a b [of s] c d e f show ?thesis by blast
qed

theorem C7_load_never_raises_witness:
  "patternMirrorHistory corruptHistoryStorage = Unparsable
   \<and> load exampleEnv (initialApp corruptHistoryStorage) = Inr (initialApp corruptHistoryStorage)
   \<and> history (initialApp corruptHistoryStorage :: nat app) = []
   \<and> profile (initialApp corruptHistoryStorage :: nat app) = Null
   \<and> \<not> getItem_throws exampleEnv
   \<and> patternMirrorHistory (localStorage (initialApp corruptProfileStorage :: nat app)) = Holds [exampleEntry 1]
   \<and> patternMirrorProfile (localStorage (initialApp corruptProfileStorage :: nat app)) = Unparsable
   \<and> load exampleEnv (initialApp corruptProfileStorage)
       = Inr ((initialApp corruptProfileStorage)\<lparr>history := [exampleEntry 1]\<rparr>)"
proof -
  have u: "getItem_throws exampleEnv \<or> patternMirrorHistory corruptHistoryStorage = Unparsable"
    by (simp add: corruptHistoryStorage_def)
  have g: "\<not> getItem_throws exampleEnv
      \<and> patternMirrorHistory (localStorage (initialApp corruptProfileStorage :: nat app)) = Holds [exampleEntry 1]
      \<and> patternMirrorProfile (localStorage (initialApp corruptProfileStorage :: nat app)) = Unparsable"
    by (simp add: exampleEnv_def initialApp_def corruptProfileStorage_def)
  note a = C7_load_never_raises [of exampleEnv "initialApp corruptHistoryStorage" corruptHistoryStorage,
      THEN conjunct2, THEN conjunct2, THEN conjunct1, THEN mp, OF u]
  note b = C7_load_never_raises [of exampleEnv "initialApp corruptProfileStorage" _ "[exampleEntry 1]",
      THEN conjunct2, THEN conjunct2, THEN conjunct2, THEN conjunct1, THEN mp, OF g]
  from a b g u show ?thesis by (simp add: corruptHistoryStorage_def)
qed

text \<open>
  The claim C7 as stated asks for an empty history on any deserialization failure.
  With a stored history that parses and a stored profile that does not, the history is
  loaded and is not empty.
\<close>

theorem C7_history_kept_counterexample:
  "patternMirrorProfile corruptProfileStorage = Unparsable
   \<and> load exampleEnv (initialApp corruptProfileStorage)
       = Inr ((initialApp corruptProfileStorage)\<lparr>history := [exampleEntry 1]\<rparr>)
   \<and> history ((initialApp corruptProfileStorage :: nat app)\<lparr>history := [exampleEntry 1]\<rparr>) \<noteq> []"
  by (simp add: load_def loadBody_def Let_def initialApp_def corruptProfileStorage_def exampleEnv_def)

end
